theory Spec2Isabelle
  imports Complex_Main "HOL-Library.AList" "HOL-Library.Log_Nat"
begin

section \<open>JavaScript values and \<open>JSON.stringify\<close>\<close>

text \<open>
  The ledger hashes the JSON text of its records, so the part of JavaScript that decides
  what that text is gets modelled: values, property lookup, and \<open>JSON.stringify\<close>.
  A number is held as the rational it denotes; \<open>NaN\<close>, the infinities and the sign of
  zero are outside the model. Strings are byte strings.
\<close>

datatype jsval =
    Undefined
  | Null
  | Bool bool
  | Num rat
  | Str string
  | Arr "jsval list"
  | Obj "(string \<times> jsval) list"

text \<open>
  What Node.js supplies from outside the repository: the SHA-256 hex digest
  (\<open>crypto.createHash('sha256').update(s).digest('hex')\<close>) and the decimal text of a
  number. Both are parameters of the model; nothing is assumed about them.
\<close>

record builtins =
  sha256 :: "string \<Rightarrow> string"
  numToString :: "rat \<Rightarrow> string"

definition hexdigit :: "nat \<Rightarrow> char" where
  "hexdigit n = (''0123456789abcdef'' ! (n mod 16))"

text \<open>\<open>JSON.stringify\<close> escapes the quote, the backslash and the control characters.\<close>

definition escape_char :: "char \<Rightarrow> string" where
  "escape_char c =
     (if c = CHR 0x22 then [CHR 0x5C, CHR 0x22]
      else if c = CHR 0x5C then [CHR 0x5C, CHR 0x5C]
      else if c = CHR 0x08 then [CHR 0x5C, CHR ''b'']
      else if c = CHR 0x09 then [CHR 0x5C, CHR ''t'']
      else if c = CHR 0x0A then [CHR 0x5C, CHR ''n'']
      else if c = CHR 0x0C then [CHR 0x5C, CHR ''f'']
      else if c = CHR 0x0D then [CHR 0x5C, CHR ''r'']
      else if of_char c < (32::nat)
        then [CHR 0x5C, CHR ''u'', CHR ''0'', CHR ''0'',
              hexdigit (of_char c div 16), hexdigit (of_char c)]
      else [c])"

definition quote :: "string \<Rightarrow> string" where
  "quote s = [CHR 0x22] @ concat (map escape_char s) @ [CHR 0x22]"

fun join :: "string \<Rightarrow> string list \<Rightarrow> string" where
  "join sep [] = []"
| "join sep [s] = s"
| "join sep (s # t # ss) = s @ sep @ join sep (t # ss)"

text \<open>
  \<open>stringify\<close> is \<open>JSON.stringify\<close>: \<open>None\<close> is its result \<open>undefined\<close>. A property whose
  value is \<open>undefined\<close> is left out of an object; in an array it is written \<open>null\<close>.
\<close>

fun stringify :: "(rat \<Rightarrow> string) \<Rightarrow> jsval \<Rightarrow> string option"
  and stringify_members :: "(rat \<Rightarrow> string) \<Rightarrow> (string \<times> jsval) list \<Rightarrow> string list"
  and stringify_elements :: "(rat \<Rightarrow> string) \<Rightarrow> jsval list \<Rightarrow> string list"
where
  "stringify N Undefined = None"
| "stringify N Null = Some ''null''"
| "stringify N (Bool b) = Some (if b then ''true'' else ''false'')"
| "stringify N (Num x) = Some (N x)"
| "stringify N (Str s) = Some (quote s)"
| "stringify N (Arr vs) = Some (''['' @ join '','' (stringify_elements N vs) @ '']'')"
| "stringify N (Obj ms) = Some (''{'' @ join '','' (stringify_members N ms) @ ''}'')"
| "stringify_members N [] = []"
| "stringify_members N (m # ms) =
     (case stringify N (snd m) of
        None \<Rightarrow> stringify_members N ms
      | Some s \<Rightarrow> (quote (fst m) @ '':'' @ s) # stringify_members N ms)"
| "stringify_elements N [] = []"
| "stringify_elements N (v # vs) =
     (case stringify N v of
        None \<Rightarrow> ''null'' # stringify_elements N vs
      | Some s \<Rightarrow> s # stringify_elements N vs)"

text \<open>\<open>JSON.stringify\<close> of an object literal, which is never \<open>undefined\<close>.\<close>

definition JSON_stringify :: "(rat \<Rightarrow> string) \<Rightarrow> (string \<times> jsval) list \<Rightarrow> string" where
  "JSON_stringify N ms = ''{'' @ join '','' (stringify_members N ms) @ ''}''"

text \<open>\<open>null\<close> is \<open>None\<close>; a template literal prints it as the text \<open>null\<close>.\<close>

definition template :: "string option \<Rightarrow> string" where
  "template a = (case a of None \<Rightarrow> ''null'' | Some s \<Rightarrow> s)"

definition js_string :: "string option \<Rightarrow> jsval" where
  "js_string a = (case a of None \<Rightarrow> Null | Some s \<Rightarrow> Str s)"

text \<open>Truthiness of a value that is a string or \<open>null\<close>: the empty string is falsy.\<close>

definition truthy :: "string option \<Rightarrow> bool" where
  "truthy a = (case a of None \<Rightarrow> False | Some s \<Rightarrow> s \<noteq> [])"

section \<open>Numbers\<close>

text \<open>
  A JavaScript number is an IEEE 754 double, and the ledger computes balances with the
  language's \<open>+\<close>, \<open>-\<close> and \<open>*\<close>, which round. \<open>double x\<close> is the double nearest to
  the rational \<open>x\<close>: 53 significant bits, a tie going to the even significand, gradual
  underflow below 2 to the power -1022. Overflow to infinity is outside the model. A
  decimal literal of the source such as \<open>0.1\<close> denotes \<open>double (1 / 10)\<close>.
\<close>

definition round_half_even :: "rat \<Rightarrow> int" where
  "round_half_even r =
     (let f = \<lfloor>r\<rfloor>; d = r - of_int f
      in if d < 1 / 2 then f
         else if d > 1 / 2 then f + 1
         else if even f then f else f + 1)"

definition pow2 :: "int \<Rightarrow> rat" where
  "pow2 e = (if e \<ge> 0 then 2 ^ nat e else 1 / 2 ^ nat (- e))"

text \<open>The exponent \<open>e\<close> of a number other than 0: \<open>pow2 e \<le> \<bar>x\<bar> < pow2 (e + 1)\<close>.\<close>

definition exponent :: "rat \<Rightarrow> int" where
  "exponent x =
     (let (a, b) = quotient_of \<bar>x\<bar>; e = bitlen a - bitlen b
      in if pow2 e \<le> \<bar>x\<bar> then e else e - 1)"

definition double :: "rat \<Rightarrow> rat" where
  "double x =
     (if x = 0 then 0
      else (let q = pow2 (max (exponent x) (- 1022) - 52)
            in of_int (round_half_even (x / q)) * q))"

definition js_plus :: "rat \<Rightarrow> rat \<Rightarrow> rat" where
  "js_plus x y = double (x + y)"

definition js_minus :: "rat \<Rightarrow> rat \<Rightarrow> rat" where
  "js_minus x y = double (x - y)"

definition js_times :: "rat \<Rightarrow> rat \<Rightarrow> rat" where
  "js_times x y = double (x * y)"

text \<open>
  The sums of stakes in the validator registry (\<open>registerValidator\<close>, the stake of
  \<open>processValidatorRegistration\<close>, the draw of \<open>selectNextValidator\<close>) and the index
  that \<open>syncBlockchain\<close> draws are written with the exact \<open>+\<close> and \<open>*\<close>.
\<close>

section \<open>Transactions (\<open>src/blockchain/transaction.js\<close>)\<close>

text \<open>
  \<open>tx_senderReward\<close> and \<open>tx_receiverReward\<close> are \<open>None\<close> while the property does not exist
  yet (\<open>undefined\<close>): the constructor computes the hash before it assigns them.
  \<open>tx_instance\<close> tells a \<open>Transaction\<close> object, which has the methods \<open>toJSON\<close> and
  \<open>verifyHash\<close>, from the plain object that \<open>JSON.parse\<close> returns.
\<close>

record transaction =
  tx_type :: string
  tx_from :: "string option"
  tx_to :: "string option"
  tx_amount :: rat
  tx_fee :: rat
  tx_data :: "(string \<times> jsval) list"
  tx_timestamp :: int
  tx_hash :: string
  tx_signature :: "string option"
  tx_senderReward :: "rat option"
  tx_receiverReward :: "rat option"
  tx_instance :: bool

definition js_number :: "rat option \<Rightarrow> jsval" where
  "js_number x = (case x of None \<Rightarrow> Undefined | Some r \<Rightarrow> Num r)"

text \<open>The object \<open>txData\<close> that \<open>calculateHash\<close> serialises.\<close>

definition txData :: "transaction \<Rightarrow> (string \<times> jsval) list" where
  "txData this =
     [(''type'', Str (tx_type this)),
      (''from'', js_string (tx_from this)),
      (''to'', js_string (tx_to this)),
      (''amount'', Num (tx_amount this)),
      (''fee'', Num (tx_fee this)),
      (''data'', Obj (tx_data this)),
      (''timestamp'', Num (of_int (tx_timestamp this))),
      (''senderReward'', js_number (tx_senderReward this)),
      (''receiverReward'', js_number (tx_receiverReward this))]"

definition calculateHash :: "builtins \<Rightarrow> transaction \<Rightarrow> string" where
  "calculateHash B this = sha256 B (JSON_stringify (numToString B) (txData this))"

definition verifyHash :: "builtins \<Rightarrow> transaction \<Rightarrow> bool" where
  "verifyHash B this = (tx_hash this = calculateHash B this)"

text \<open>
  \<open>data.senderReward || 0\<close>: a missing property and the number 0 both give 0. The
  repository never stores anything but a number under these two keys, so other values are
  read as 0 as well.
\<close>

definition reward_or_0 :: "(string \<times> jsval) list \<Rightarrow> string \<Rightarrow> rat" where
  "reward_or_0 data k = (case map_of data k of Some (Num x) \<Rightarrow> x | _ \<Rightarrow> 0)"

text \<open>
  The constructor, statement by statement; \<open>now\<close> is \<open>Date.now()\<close>. The hash is taken
  from the object as it is at that line, two assignments before the end.
\<close>

definition Transaction ::
  "builtins \<Rightarrow> int \<Rightarrow> string \<Rightarrow> string option \<Rightarrow> string option \<Rightarrow> rat \<Rightarrow> rat
     \<Rightarrow> (string \<times> jsval) list \<Rightarrow> transaction" where
  "Transaction B now type from to amount fee data =
     (let this = \<lparr>tx_type = type, tx_from = from, tx_to = to, tx_amount = amount,
                  tx_fee = fee, tx_data = data, tx_timestamp = now, tx_hash = [],
                  tx_signature = None, tx_senderReward = None, tx_receiverReward = None,
                  tx_instance = True\<rparr>;
          this = this\<lparr>tx_hash := calculateHash B this\<rparr>;
          this = this\<lparr>tx_signature := None\<rparr>;
          this = this\<lparr>tx_senderReward := Some (reward_or_0 data ''senderReward'')\<rparr>;
          this = this\<lparr>tx_receiverReward := Some (reward_or_0 data ''receiverReward'')\<rparr>
      in this)"

text \<open>\<open>tx.hash = tx.calculateHash()\<close>, as the engine does for its own reward transactions.\<close>

definition rehash :: "builtins \<Rightarrow> transaction \<Rightarrow> transaction" where
  "rehash B tx = tx\<lparr>tx_hash := calculateHash B tx\<rparr>"

section \<open>Blocks and the store (\<open>src/blockchain/block.js\<close>, \<open>src/storage/db.js\<close>)\<close>

record block =
  b_height :: int
  b_previousHash :: string
  b_transactions :: "transaction list"
  b_validator :: string
  b_timestamp :: int
  b_hash :: string
  b_signature :: "string option"

text \<open>
  \<open>Block.fromJSON\<close> copies the fields of the parsed object; its \<open>transactions\<close> stay the
  plain objects that \<open>JSON.parse\<close> made, without the methods of \<open>Transaction\<close>.
\<close>

definition Block_fromJSON :: "block \<Rightarrow> block" where
  "Block_fromJSON data =
     data\<lparr>b_transactions := map (\<lambda>t. t\<lparr>tx_instance := False\<rparr>) (b_transactions data)\<rparr>"

record inbox_entry =
  in_id :: string
  in_from :: "string option"
  in_content :: jsval
  in_timestamp :: int
  in_read :: bool
  in_reward :: "rat option"

record outbox_entry =
  out_id :: string
  out_to :: "string option"
  out_content :: jsval
  out_timestamp :: int
  out_reward :: "rat option"
  out_fee :: rat

text \<open>
  The LevelDB store. Each field is one family of keys, named by the key's prefix
  (\<open>BALANCE_<address>\<close>, \<open>BLOCK_HEIGHT_<n>\<close>, ...), and holds the decoded value; a missing
  key (\<open>NotFoundError\<close>) is \<open>None\<close>. The part of a key after the prefix is the text the
  template literal produces. The families are kept apart: a block hash is a hex digest, so
  \<open>BLOCK_<hash>\<close> never spells a key of \<open>BLOCK_HEIGHT_<n>\<close> or \<open>BLOCK_HASH_<hash>\<close>.
  Failures of the disk are outside the model.
\<close>

record database =
  BLOCK :: "string \<rightharpoonup> block"
  BLOCK_HEIGHT :: "int \<rightharpoonup> string"
  BLOCK_HASH :: "string \<rightharpoonup> string"
  LATEST_BLOCK :: "block option"
  BALANCE :: "string \<rightharpoonup> rat"
  TX :: "string \<rightharpoonup> transaction"
  VALIDATORS :: "(string \<times> rat) list option"
  VALIDATOR_LAST_UPDATE :: "string option"
  VALIDATOR_MIN_DEPOSIT :: "string option"
  WHITELIST :: "string \<rightharpoonup> string option list"
  INBOX :: "string \<rightharpoonup> inbox_entry list"
  OUTBOX :: "string \<rightharpoonup> outbox_entry list"
  ADDRESS_TXS :: "string \<rightharpoonup> string list"

datatype error = Error string | TypeError string

definition message :: "error \<Rightarrow> string" where
  "message e = (case e of Error m \<Rightarrow> m | TypeError m \<Rightarrow> m)"

text \<open>
  A call that can throw returns \<open>Inl\<close> of the error and the state the throw left, or
  \<open>Inr\<close>. Whether a call returned, and the state it left either way:
\<close>

definition returned :: "'e \<times> 's + 's \<Rightarrow> bool" where
  "returned r = (case r of Inl _ \<Rightarrow> False | Inr _ \<Rightarrow> True)"

definition state_of :: "'e \<times> 's + 's \<Rightarrow> 's" where
  "state_of r = (case r of Inl (e, s) \<Rightarrow> s | Inr s \<Rightarrow> s)"

section \<open>The ledger engine (\<open>src/blockchain/blockchain.js\<close>)\<close>

text \<open>\<open>validators\<close> is a JavaScript \<open>Map\<close>: an association list in insertion order.\<close>

record blockchain =
  db :: database
  pendingTransactions :: "transaction list"
  validators :: "(string option \<times> rat) list"
  validatorMinDeposit :: rat
  currentHeight :: int

definition getAddressBalance :: "database \<Rightarrow> string option \<Rightarrow> rat" where
  "getAddressBalance d address =
     (case BALANCE d (template address) of None \<Rightarrow> 0 | Some balance \<Rightarrow> balance)"

definition put_BALANCE :: "string option \<Rightarrow> rat \<Rightarrow> database \<Rightarrow> database" where
  "put_BALANCE address v d = d\<lparr>BALANCE := (BALANCE d)(template address \<mapsto> v)\<rparr>"

definition Map_has :: "('k \<times> 'v) list \<Rightarrow> 'k \<Rightarrow> bool" where
  "Map_has m k = (map_of m k \<noteq> None)"

text \<open>
  \<open>addTransaction\<close>: a plain object has no \<open>verifyHash\<close> method, so the call itself
  throws. The event emitted on success has no listener that changes the ledger.
\<close>

definition addTransaction :: "builtins \<Rightarrow> transaction \<Rightarrow> blockchain \<Rightarrow> error + string \<times> blockchain" where
  "addTransaction B transaction bc =
     (if \<not> tx_instance transaction then Inl (TypeError ''transaction.verifyHash is not a function'')
      else if \<not> verifyHash B transaction then Inl (Error ''Invalid transaction hash'')
      else Inr (tx_hash transaction,
                bc\<lparr>pendingTransactions := pendingTransactions bc @ [transaction]\<rparr>))"

text \<open>
  \<open>isTransactionValid\<close> calls \<open>transaction.verifyHash()\<close> first, which throws on a plain
  object; on a \<open>Transaction\<close> it returns a boolean.
\<close>

definition isTransactionValid :: "builtins \<Rightarrow> blockchain \<Rightarrow> transaction \<Rightarrow> error + bool" where
  "isTransactionValid B bc transaction =
     (if \<not> tx_instance transaction
        then Inl (TypeError ''transaction.verifyHash is not a function'')
      else if \<not> verifyHash B transaction then Inr False
      else if tx_type transaction \<in> set [''MINT'', ''REWARD''] then Inr True
      else if tx_type transaction = ''TRANSFER'' then
        Inr (getAddressBalance (db bc) (tx_from transaction)
               \<ge> js_plus (tx_amount transaction) (tx_fee transaction))
      else if tx_type transaction = ''VALIDATOR_REGISTER'' then
        Inr (getAddressBalance (db bc) (tx_from transaction)
               \<ge> js_plus (tx_amount transaction) (tx_fee transaction)
             \<and> tx_amount transaction \<ge> validatorMinDeposit bc)
      else if tx_type transaction = ''VALIDATOR_WITHDRAW'' then
        Inr (Map_has (validators bc) (tx_from transaction))
      else if tx_type transaction = ''MESSAGE'' then
        (if tx_fee transaction > 0
         then Inr (getAddressBalance (db bc) (tx_from transaction) \<ge> tx_fee transaction)
         else Inr True)
      else if tx_type transaction = ''WHITELIST'' then Inr True
      else Inr False)"

text \<open>
  The functions that apply a transaction mutate the store and the validator map in place.
  A function that can throw returns \<open>Inl (e, bc)\<close>: the error and the state as the throw
  left it; \<open>Inr bc\<close> is a normal return.
\<close>

definition processTransferTransaction :: "transaction \<Rightarrow> blockchain \<Rightarrow> blockchain" where
  "processTransferTransaction transaction bc =
     (let senderBalance = getAddressBalance (db bc) (tx_from transaction);
          recipientBalance = getAddressBalance (db bc) (tx_to transaction);
          d = put_BALANCE (tx_from transaction)
                (js_minus (js_minus senderBalance (tx_amount transaction)) (tx_fee transaction))
                (db bc);
          d = put_BALANCE (tx_to transaction)
                (js_plus recipientBalance (tx_amount transaction)) d
      in bc\<lparr>db := d\<rparr>)"

definition processMintTransaction :: "transaction \<Rightarrow> blockchain \<Rightarrow> blockchain" where
  "processMintTransaction transaction bc =
     (let recipientBalance = getAddressBalance (db bc) (tx_to transaction)
      in bc\<lparr>db := put_BALANCE (tx_to transaction)
                      (js_plus recipientBalance (tx_amount transaction)) (db bc)\<rparr>)"

definition processRewardTransaction :: "transaction \<Rightarrow> blockchain \<Rightarrow> blockchain" where
  "processRewardTransaction transaction bc =
     (let recipientBalance = getAddressBalance (db bc) (tx_to transaction)
      in bc\<lparr>db := put_BALANCE (tx_to transaction)
                      (js_plus recipientBalance (tx_amount transaction)) (db bc)\<rparr>)"

text \<open>
  \<open>saveValidators\<close> copies the map into an object, whose keys are strings, and stores it.
\<close>

definition saveValidators :: "blockchain \<Rightarrow> blockchain" where
  "saveValidators bc =
     (let validatorsObj =
            foldl (\<lambda>obj (address, amount). AList.update (template address) amount obj)
                  [] (validators bc)
      in bc\<lparr>db := (db bc)\<lparr>VALIDATORS := Some validatorsObj\<rparr>\<rparr>)"

text \<open>\<open>map.get(k) || 0\<close>: a missing key and a stake of 0 both read as 0.\<close>

definition get_or_0 :: "('k \<times> rat) list \<Rightarrow> 'k \<Rightarrow> rat" where
  "get_or_0 m k = (case map_of m k of None \<Rightarrow> 0 | Some v \<Rightarrow> v)"

definition processValidatorRegistration :: "transaction \<Rightarrow> blockchain \<Rightarrow> blockchain" where
  "processValidatorRegistration transaction bc =
     (let senderBalance = getAddressBalance (db bc) (tx_from transaction);
          bc = bc\<lparr>db := put_BALANCE (tx_from transaction)
                      (js_minus (js_minus senderBalance (tx_amount transaction))
                         (tx_fee transaction)) (db bc)\<rparr>;
          currentStake = get_or_0 (validators bc) (tx_from transaction);
          bc = bc\<lparr>validators := AList.update (tx_from transaction)
                      (currentStake + tx_amount transaction) (validators bc)\<rparr>
      in saveValidators bc)"

definition processValidatorWithdrawal ::
  "transaction \<Rightarrow> blockchain \<Rightarrow> error \<times> blockchain + blockchain" where
  "processValidatorWithdrawal transaction bc =
     (case map_of (validators bc) (tx_from transaction) of
        None \<Rightarrow> Inl (Error ''Not a validator'', bc)
      | Some stakedAmount \<Rightarrow>
          (let senderBalance = getAddressBalance (db bc) (tx_from transaction);
               bc = bc\<lparr>db := put_BALANCE (tx_from transaction)
                           (js_minus (js_plus senderBalance stakedAmount) (tx_fee transaction))
                           (db bc)\<rparr>;
               bc = bc\<lparr>validators := AList.delete (tx_from transaction) (validators bc)\<rparr>
           in Inr (saveValidators bc)))"

definition data_get :: "(string \<times> jsval) list \<Rightarrow> string \<Rightarrow> jsval" where
  "data_get data k = (case map_of data k of None \<Rightarrow> Undefined | Some v \<Rightarrow> v)"

definition storeMessage :: "transaction \<Rightarrow> database \<Rightarrow> database" where
  "storeMessage transaction d =
     (let inboxKey = template (tx_to transaction);
          inbox = (case INBOX d inboxKey of None \<Rightarrow> [] | Some l \<Rightarrow> l);
          inbox = inbox @ [\<lparr>in_id = tx_hash transaction, in_from = tx_from transaction,
                            in_content = data_get (tx_data transaction) ''message'',
                            in_timestamp = tx_timestamp transaction, in_read = False,
                            in_reward = tx_receiverReward transaction\<rparr>];
          d = d\<lparr>INBOX := (INBOX d)(inboxKey \<mapsto> inbox)\<rparr>;
          outboxKey = template (tx_from transaction);
          outbox = (case OUTBOX d outboxKey of None \<Rightarrow> [] | Some l \<Rightarrow> l);
          outbox = outbox @ [\<lparr>out_id = tx_hash transaction, out_to = tx_to transaction,
                              out_content = data_get (tx_data transaction) ''message'',
                              out_timestamp = tx_timestamp transaction,
                              out_reward = tx_senderReward transaction,
                              out_fee = tx_fee transaction\<rparr>]
      in d\<lparr>OUTBOX := (OUTBOX d)(outboxKey \<mapsto> outbox)\<rparr>)"

text \<open>\<open>x > 0\<close> for a property that may be \<open>undefined\<close>: the comparison is then false.\<close>

definition positive :: "rat option \<Rightarrow> bool" where
  "positive x = (case x of None \<Rightarrow> False | Some r \<Rightarrow> r > 0)"

definition processMessageTransaction :: "transaction \<Rightarrow> blockchain \<Rightarrow> blockchain" where
  "processMessageTransaction transaction bc =
     (let d = db bc;
          d = (if tx_fee transaction > 0 then
                 (let senderBalance = getAddressBalance d (tx_from transaction)
                  in put_BALANCE (tx_from transaction)
                       (js_minus senderBalance (tx_fee transaction)) d)
               else if positive (tx_senderReward transaction) then
                 (let senderBalance = getAddressBalance d (tx_from transaction)
                  in put_BALANCE (tx_from transaction)
                       (js_plus senderBalance (the (tx_senderReward transaction))) d)
               else d);
          d = (if positive (tx_receiverReward transaction) then
                 (let receiverBalance = getAddressBalance d (tx_to transaction)
                  in put_BALANCE (tx_to transaction)
                       (js_plus receiverBalance (the (tx_receiverReward transaction))) d)
               else d)
      in bc\<lparr>db := storeMessage transaction d\<rparr>)"

definition processWhitelistTransaction :: "transaction \<Rightarrow> blockchain \<Rightarrow> blockchain" where
  "processWhitelistTransaction transaction bc =
     (let whitelistKey = template (tx_from transaction);
          whitelist = (case WHITELIST (db bc) whitelistKey of None \<Rightarrow> [] | Some l \<Rightarrow> l);
          whitelist =
            (if data_get (tx_data transaction) ''action'' = Str ''add'' then
               (if tx_to transaction \<notin> set whitelist
                then whitelist @ [tx_to transaction] else whitelist)
             else if data_get (tx_data transaction) ''action'' = Str ''remove'' then
               filter (\<lambda>addr. addr \<noteq> tx_to transaction) whitelist
             else whitelist)
      in bc\<lparr>db := (db bc)\<lparr>WHITELIST := (WHITELIST (db bc))(whitelistKey \<mapsto> whitelist)\<rparr>\<rparr>)"

definition addToAddressTransactions :: "string option \<Rightarrow> string \<Rightarrow> blockchain \<Rightarrow> blockchain" where
  "addToAddressTransactions address txHash bc =
     (let key = template address;
          transactions = (case ADDRESS_TXS (db bc) key of None \<Rightarrow> [] | Some l \<Rightarrow> l)
      in bc\<lparr>db := (db bc)\<lparr>ADDRESS_TXS := (ADDRESS_TXS (db bc))(key \<mapsto> transactions @ [txHash])\<rparr>\<rparr>)"

text \<open>The \<open>switch\<close> of \<open>processTransaction\<close>; an unknown type matches no case.\<close>

definition processByType ::
  "transaction \<Rightarrow> blockchain \<Rightarrow> error \<times> blockchain + blockchain" where
  "processByType transaction bc =
     (if tx_type transaction = ''TRANSFER'' then Inr (processTransferTransaction transaction bc)
      else if tx_type transaction = ''MINT'' then Inr (processMintTransaction transaction bc)
      else if tx_type transaction = ''REWARD'' then Inr (processRewardTransaction transaction bc)
      else if tx_type transaction = ''VALIDATOR_REGISTER''
        then Inr (processValidatorRegistration transaction bc)
      else if tx_type transaction = ''VALIDATOR_WITHDRAW''
        then processValidatorWithdrawal transaction bc
      else if tx_type transaction = ''MESSAGE'' then Inr (processMessageTransaction transaction bc)
      else if tx_type transaction = ''WHITELIST''
        then Inr (processWhitelistTransaction transaction bc)
      else Inr bc)"

text \<open>
  \<open>processTransaction\<close> starts with \<open>transaction.toJSON()\<close>, which a plain object does not
  have: the call throws a \<open>TypeError\<close> before anything is written.
\<close>

definition processTransaction ::
  "transaction \<Rightarrow> blockchain \<Rightarrow> error \<times> blockchain + blockchain" where
  "processTransaction transaction bc =
     (if \<not> tx_instance transaction
      then Inl (TypeError ''transaction.toJSON is not a function'', bc)
      else
        (let bc = bc\<lparr>db := (db bc)\<lparr>TX := (TX (db bc))(tx_hash transaction \<mapsto> transaction)\<rparr>\<rparr>
         in case processByType transaction bc of
              Inl thrown \<Rightarrow> Inl thrown
            | Inr bc \<Rightarrow>
                (let bc = (if truthy (tx_from transaction)
                           then addToAddressTransactions (tx_from transaction)
                                  (tx_hash transaction) bc
                           else bc);
                     bc = (if truthy (tx_to transaction) \<and> tx_to transaction \<noteq> tx_from transaction
                           then addToAddressTransactions (tx_to transaction)
                                  (tx_hash transaction) bc
                           else bc)
                 in Inr bc)))"

text \<open>The loop of \<open>saveBlock\<close> over a block's transactions: the first throw ends it.\<close>

fun processTransactions ::
  "transaction list \<Rightarrow> blockchain \<Rightarrow> error \<times> blockchain + blockchain" where
  "processTransactions [] bc = Inr bc"
| "processTransactions (tx # txs) bc =
     (case processTransaction tx bc of
        Inl thrown \<Rightarrow> Inl thrown
      | Inr bc \<Rightarrow> processTransactions txs bc)"

text \<open>The genesis branch of \<open>saveBlock\<close>: a \<open>MINT\<close> entry sets the balance of \<open>to\<close>.\<close>

fun processGenesisTransactions :: "transaction list \<Rightarrow> database \<Rightarrow> database" where
  "processGenesisTransactions [] d = d"
| "processGenesisTransactions (tx # txs) d =
     processGenesisTransactions txs
       (if tx_type tx = ''MINT'' \<and> truthy (tx_to tx)
        then put_BALANCE (tx_to tx) (tx_amount tx) d else d)"

text \<open>\<open>Transaction.toJSON\<close>, which \<open>JSON.stringify\<close> calls on each transaction of a block.\<close>

definition toJSON :: "transaction \<Rightarrow> (string \<times> jsval) list" where
  "toJSON this =
     [(''type'', Str (tx_type this)),
      (''from'', js_string (tx_from this)),
      (''to'', js_string (tx_to this)),
      (''amount'', Num (tx_amount this)),
      (''fee'', Num (tx_fee this)),
      (''data'', Obj (tx_data this)),
      (''timestamp'', Num (of_int (tx_timestamp this))),
      (''hash'', Str (tx_hash this)),
      (''signature'', js_string (tx_signature this)),
      (''senderReward'', js_number (tx_senderReward this)),
      (''receiverReward'', js_number (tx_receiverReward this))]"

text \<open>
  \<open>Block.toJSON\<close> (\<open>src/blockchain/block.js\<close>) builds its result with the member
  \<open>size: JSON.stringify(this).length\<close>.
  \<open>JSON.stringify\<close> of an object that has a \<open>toJSON\<close> method serialises what that method
  returns, so \<open>toJSON\<close> calls itself before it can return anything. The function is the
  least solution of its equation: \<open>None\<close> is a call that does not return.
\<close>

partial_function (option) Block_toJSON ::
  "(rat \<Rightarrow> string) \<Rightarrow> block \<Rightarrow> (string \<times> jsval) list option" where
  "Block_toJSON N this =
     Option.bind (Block_toJSON N this)
       (\<lambda>json. Some
          [(''height'', Num (of_int (b_height this))),
           (''hash'', Str (b_hash this)),
           (''previousHash'', Str (b_previousHash this)),
           (''timestamp'', Num (of_int (b_timestamp this))),
           (''transactions'', Arr (map (\<lambda>tx. Obj (toJSON tx)) (b_transactions this))),
           (''validator'', Str (b_validator this)),
           (''signature'', js_string (b_signature this)),
           (''size'', Num (of_nat (length (JSON_stringify N json))))])"

text \<open>
  \<open>saveBlock\<close> checks nothing about the block. Its first statement serialises
  \<open>block.toJSON()\<close> for the first record; then come the other three block records, the
  transactions, and \<open>currentHeight\<close>. Whatever is thrown inside is thrown again as
  \<open>Failed to save block\<close>, with the writes made so far left in place. The engine ends a
  recursion that does not return with the \<open>RangeError\<close>
  \<open>Maximum call stack size exceeded\<close>, before anything was written.
\<close>

definition saveBlock ::
  "builtins \<Rightarrow> block \<Rightarrow> blockchain \<Rightarrow> error \<times> blockchain + blockchain" where
  "saveBlock B block bc =
     (case Block_toJSON (numToString B) block of
        None \<Rightarrow>
          Inl (Error (''Failed to save block: '' @ ''Maximum call stack size exceeded''), bc)
      | Some json \<Rightarrow>
          (let d = db bc;
               d = d\<lparr>BLOCK := (BLOCK d)(b_hash block \<mapsto> block)\<rparr>;
               d = d\<lparr>BLOCK_HEIGHT := (BLOCK_HEIGHT d)(b_height block \<mapsto> b_hash block)\<rparr>;
               d = d\<lparr>BLOCK_HASH := (BLOCK_HASH d)(b_hash block \<mapsto> b_hash block)\<rparr>;
               d = d\<lparr>LATEST_BLOCK := Some block\<rparr>;
               bc = bc\<lparr>db := d\<rparr>
           in if b_height block > 0 then
                (case processTransactions (b_transactions block) bc of
                   Inl (err, bc) \<Rightarrow> Inl (Error (''Failed to save block: '' @ message err), bc)
                 | Inr bc \<Rightarrow> Inr (bc\<lparr>currentHeight := b_height block\<rparr>))
              else
                Inr (bc\<lparr>db := processGenesisTransactions (b_transactions block) (db bc),
                        currentHeight := b_height block\<rparr>)))"

text \<open>
  \<open>processValidatorRewards\<close>: the loop that adds up the reward, then the reward
  transaction (whose hash is computed again after construction) and the credit.
  \<open>if (tx.senderReward)\<close> is false for \<open>undefined\<close> and for 0.
\<close>

definition nonzero :: "rat option \<Rightarrow> bool" where
  "nonzero x = (case x of None \<Rightarrow> False | Some r \<Rightarrow> r \<noteq> 0)"

fun totalReward_loop :: "transaction list \<Rightarrow> rat \<Rightarrow> rat" where
  "totalReward_loop [] totalReward = totalReward"
| "totalReward_loop (tx # txs) totalReward =
     (let totalReward = js_plus totalReward (tx_fee tx);
          totalReward =
            (if tx_type tx = ''MESSAGE'' then
               (let totalReward =
                      (if nonzero (tx_senderReward tx)
                       then js_plus totalReward (js_times (the (tx_senderReward tx)) (3 / 2))
                       else totalReward);
                    totalReward =
                      (if nonzero (tx_receiverReward tx)
                       then js_plus totalReward (js_times (the (tx_receiverReward tx)) (3 / 2))
                       else totalReward)
                in totalReward)
             else totalReward)
      in totalReward_loop txs totalReward)"

definition processValidatorRewards ::
  "builtins \<Rightarrow> int \<Rightarrow> string \<Rightarrow> block \<Rightarrow> blockchain \<Rightarrow> blockchain" where
  "processValidatorRewards B now validatorAddress block bc =
     (let totalReward = totalReward_loop (b_transactions block) 0;
          rewardTx = Transaction B now ''REWARD'' None (Some validatorAddress) totalReward 0
                       [(''blockHeight'', Num (of_int (b_height block)))];
          rewardTx = rewardTx\<lparr>tx_hash := calculateHash B rewardTx\<rparr>;
          d = db bc;
          d = d\<lparr>TX := (TX d)(tx_hash rewardTx \<mapsto> rewardTx)\<rparr>;
          balance = getAddressBalance d (Some validatorAddress);
          d = put_BALANCE (Some validatorAddress) (js_plus balance totalReward) d
      in bc\<lparr>db := d\<rparr>)"

subsection \<open>Producing a block (\<open>Block\<close> constructor and \<open>createBlock\<close>)\<close>

definition Block_calculateHash :: "builtins \<Rightarrow> block \<Rightarrow> string" where
  "Block_calculateHash B this =
     sha256 B (JSON_stringify (numToString B)
       [(''height'', Num (of_int (b_height this))),
        (''previousHash'', Str (b_previousHash this)),
        (''timestamp'', Num (of_int (b_timestamp this))),
        (''transactions'', Arr (map (\<lambda>tx. Obj (toJSON tx)) (b_transactions this))),
        (''validator'', Str (b_validator this))])"

text \<open>The \<open>Block\<close> constructor: here the hash is computed after every hashed field is set.\<close>

definition Block :: "builtins \<Rightarrow> int \<Rightarrow> int \<Rightarrow> string \<Rightarrow> transaction list \<Rightarrow> string \<Rightarrow> block" where
  "Block B now height previousHash transactions validator =
     (let this = \<lparr>b_height = height, b_previousHash = previousHash,
                  b_transactions = transactions, b_validator = validator,
                  b_timestamp = now, b_hash = [], b_signature = None\<rparr>;
          this = this\<lparr>b_hash := Block_calculateHash B this\<rparr>
      in this\<lparr>b_signature := None\<rparr>)"

text \<open>The loop of \<open>createBlock\<close> that keeps the valid pending transactions.\<close>

fun validTransactions_loop ::
  "builtins \<Rightarrow> blockchain \<Rightarrow> transaction list \<Rightarrow> error + transaction list" where
  "validTransactions_loop B bc [] = Inr []"
| "validTransactions_loop B bc (tx # txs) =
     (case isTransactionValid B bc tx of
        Inl err \<Rightarrow> Inl err
      | Inr valid \<Rightarrow>
          (case validTransactions_loop B bc txs of
             Inl err \<Rightarrow> Inl err
           | Inr validTransactions \<Rightarrow>
               Inr (if valid then tx # validTransactions else validTransactions)))"

text \<open>
  \<open>createBlock\<close>; \<open>now\<close> and \<open>now'\<close> are the clock at the construction of the block and of
  the reward transaction, \<open>signCallback\<close> signs with the validator's key. The result
  carries the block when one was produced. \<open>syncBlockchain\<close> of the engine is an empty
  placeholder.
\<close>

definition createBlock ::
  "builtins \<Rightarrow> int \<Rightarrow> int \<Rightarrow> (string \<Rightarrow> string) \<Rightarrow> string \<Rightarrow> blockchain
     \<Rightarrow> error \<times> blockchain + block option \<times> blockchain" where
  "createBlock B now now' signCallback validatorAddress bc =
     (if \<not> Map_has (validators bc) (Some validatorAddress) then Inr (None, bc)
      else case LATEST_BLOCK (db bc) of
        None \<Rightarrow>
          Inl (Error ''Failed to get latest block: Key not found in database [LATEST_BLOCK]'', bc)
      | Some latestBlock \<Rightarrow>
          if length (pendingTransactions bc) = 0 then Inr (None, bc)
          else case validTransactions_loop B bc (pendingTransactions bc) of
            Inl err \<Rightarrow> Inl (err, bc)
          | Inr validTransactions \<Rightarrow>
              if length validTransactions = 0 then Inr (None, bc)
              else
                (let newBlock = Block B now (b_height latestBlock + 1) (b_hash latestBlock)
                                  validTransactions validatorAddress;
                     newBlock = newBlock\<lparr>b_signature := Some (signCallback (b_hash newBlock))\<rparr>
                 in case saveBlock B newBlock bc of
                      Inl thrown \<Rightarrow> Inl thrown
                    | Inr bc \<Rightarrow>
                        (let bc = bc\<lparr>pendingTransactions :=
                                        filter (\<lambda>tx. tx \<notin> set validTransactions)
                                               (pendingTransactions bc)\<rparr>;
                             bc = processValidatorRewards B now' validatorAddress newBlock bc
                         in Inr (Some newBlock, bc))))"

section \<open>The validator registry (\<open>ValidatorManager\<close>)\<close>

record validatorManager =
  vm_validators :: "(string \<times> rat) list"
  minimumDeposit :: rat
  lastYearlyUpdate :: int

definition registerValidator ::
  "builtins \<Rightarrow> string \<Rightarrow> rat \<Rightarrow> validatorManager \<Rightarrow> error \<times> validatorManager + validatorManager" where
  "registerValidator B address amount vm =
     (if amount < minimumDeposit vm then
        Inl (Error (''Staked amount '' @ numToString B amount @ '' is below minimum deposit ''
                      @ numToString B (minimumDeposit vm)), vm)
      else
        (let currentStake = get_or_0 (vm_validators vm) address
         in Inr (vm\<lparr>vm_validators :=
                      AList.update address (currentStake + amount) (vm_validators vm)\<rparr>)))"

definition removeValidator ::
  "string \<Rightarrow> validatorManager \<Rightarrow> error \<times> validatorManager + rat \<times> validatorManager" where
  "removeValidator address vm =
     (case map_of (vm_validators vm) address of
        None \<Rightarrow> Inl (Error (''Address '' @ address @ '' is not a validator''), vm)
      | Some amount \<Rightarrow>
          Inr (amount, vm\<lparr>vm_validators := AList.delete address (vm_validators vm)\<rparr>))"

definition isValidator :: "validatorManager \<Rightarrow> string \<Rightarrow> bool" where
  "isValidator vm address = Map_has (vm_validators vm) address"

definition getValidatorStake :: "validatorManager \<Rightarrow> string \<Rightarrow> rat" where
  "getValidatorStake vm address = get_or_0 (vm_validators vm) address"

text \<open>
  The selection loop: \<open>None\<close> when it runs off the end of the entries without returning.
\<close>

fun select_loop :: "(string \<times> rat) list \<Rightarrow> rat \<Rightarrow> rat \<Rightarrow> string option" where
  "select_loop [] cumulativeStake random = None"
| "select_loop ((address, stake) # entries) cumulativeStake random =
     (let cumulativeStake = cumulativeStake + stake
      in if random \<le> cumulativeStake then Some address
         else select_loop entries cumulativeStake random)"

text \<open>
  \<open>selectNextValidator\<close>; \<open>rnd\<close> is the value of \<open>Math.random()\<close>, and the result \<open>None\<close> is
  \<open>null\<close>. A \<open>Map\<close> has one entry per key, so its size is the number of entries.
\<close>

definition selectNextValidator :: "validatorManager \<Rightarrow> rat \<Rightarrow> string option" where
  "selectNextValidator vm rnd =
     (if length (vm_validators vm) = 0 then None
      else
        (let validatorEntries = vm_validators vm;
             totalStake = foldl (\<lambda>total (_, stake). total + stake) 0 validatorEntries;
             random = rnd * totalStake
         in case select_loop validatorEntries 0 random of
              Some address \<Rightarrow> Some address
            | None \<Rightarrow> Some (fst (validatorEntries ! 0))))"

text \<open>\<open>ValidatorManager.save\<close> writes to the store that the ledger engine uses too.\<close>

definition save :: "builtins \<Rightarrow> validatorManager \<Rightarrow> database \<Rightarrow> database" where
  "save B vm d =
     (let validatorsObj =
            foldl (\<lambda>obj (address, amount). AList.update address amount obj)
                  [] (vm_validators vm)
      in d\<lparr>VALIDATORS := Some validatorsObj,
           VALIDATOR_LAST_UPDATE := Some (numToString B (of_int (lastYearlyUpdate vm))),
           VALIDATOR_MIN_DEPOSIT := Some (numToString B (minimumDeposit vm))\<rparr>)"

section \<open>The node (\<open>src/network/p2p-node.js\<close> and the \<open>Node\<close> class)\<close>

text \<open>
  A peer is what it answers to the three sync requests; \<open>Inl\<close> is a request that throws
  (a timeout, or an error response). The height answer is \<open>parseInt\<close> of a field of the
  response, \<open>None\<close> when that is \<open>NaN\<close>.
\<close>

record peer =
  peer_height :: "error + int option"
  peer_block :: "int \<Rightarrow> error + block"
  peer_validators :: "error + (string \<times> rat) list"

record hourlyStats =
  total :: nat
  perAddress :: "string \<rightharpoonup> nat"

record node =
  node_blockchain :: blockchain
  node_validatorManager :: validatorManager
  node_peers :: "(string \<times> peer) list"
  hourly :: "string \<rightharpoonup> hourlyStats"
  wallet :: "string \<rightharpoonup> string"

text \<open>
  The cryptography and the key directory the node calls into: signing, signature
  verification (hash, signature, address) and message encryption (message, recipient).
  The public keys the node caches (\<open>PUBKEY_<address>\<close>) live behind these functions and
  are not part of the modelled store.
\<close>

record collaborators =
  sign :: "string \<Rightarrow> string \<Rightarrow> string"
  verifyCallback :: "string \<Rightarrow> string \<Rightarrow> string \<Rightarrow> bool"
  encryptMessage :: "string \<Rightarrow> string \<Rightarrow> string"

text \<open>
  What a sync does on the network and to the ledger, in order: a block request for a
  height, then the outcome of \<open>saveBlock\<close> on the block received for it.
\<close>

datatype sync_event = RequestBlock int | Applied int block | Rejected int block

text \<open>
  The \<open>for\<close> loop of \<open>syncWithPeer\<close> from height \<open>i\<close> to \<open>peerHeight\<close>. A request that
  throws, or a \<open>saveBlock\<close> that throws, leaves the loop.
\<close>

function sync_blocks ::
  "builtins \<Rightarrow> peer \<Rightarrow> int \<Rightarrow> int \<Rightarrow> blockchain
     \<Rightarrow> sync_event list \<times> (error \<times> blockchain + blockchain)" where
  "sync_blocks B p i peerHeight bc =
     (if i \<le> peerHeight then
        (case peer_block p i of
           Inl err \<Rightarrow> ([RequestBlock i], Inl (err, bc))
         | Inr blockResponse \<Rightarrow>
             (let block = Block_fromJSON blockResponse
              in case saveBlock B block bc of
                   Inl (err, bc) \<Rightarrow> ([RequestBlock i, Rejected i block], Inl (err, bc))
                 | Inr bc \<Rightarrow>
                     (let (events, r) = sync_blocks B p (i + 1) peerHeight bc
                      in (RequestBlock i # Applied i block # events, r))))
      else ([], Inr bc))"
  by pat_completeness auto
termination
  by (relation "measure (\<lambda>(B, p, i, peerHeight, bc). nat (peerHeight + 1 - i))") auto

declare sync_blocks.simps [simp del]

text \<open>The loop over the entries of the peer's validator set.\<close>

fun sync_validators ::
  "builtins \<Rightarrow> (string \<times> rat) list \<Rightarrow> validatorManager
     \<Rightarrow> error \<times> validatorManager + validatorManager" where
  "sync_validators B [] vm = Inr vm"
| "sync_validators B ((address, amount) # entries) vm =
     (if \<not> isValidator vm address then
        (case registerValidator B address amount vm of
           Inl thrown \<Rightarrow> Inl thrown
         | Inr vm \<Rightarrow> sync_validators B entries vm)
      else sync_validators B entries vm)"

definition ourHeight :: "blockchain \<Rightarrow> int" where
  "ourHeight bc = (case LATEST_BLOCK (db bc) of None \<Rightarrow> - 1 | Some latestBlock \<Rightarrow> b_height latestBlock)"

text \<open>
  \<open>syncWithPeer\<close> of \<open>P2PNode\<close>: whatever is thrown is logged and thrown again.
\<close>

definition syncWithPeer ::
  "builtins \<Rightarrow> peer \<Rightarrow> node \<Rightarrow> sync_event list \<times> (error \<times> node + node)" where
  "syncWithPeer B p n =
     (case peer_height p of
        Inl err \<Rightarrow> ([], Inl (err, n))
      | Inr peerHeight \<Rightarrow>
          (let ourHeight = ourHeight (node_blockchain n);
               (events, r) =
                 (case peerHeight of
                    None \<Rightarrow> ([], Inr (node_blockchain n))
                  | Some peerHeight \<Rightarrow>
                      if peerHeight > ourHeight
                      then sync_blocks B p (ourHeight + 1) peerHeight (node_blockchain n)
                      else ([], Inr (node_blockchain n)))
           in case r of
                Inl (err, bc) \<Rightarrow> (events, Inl (err, n\<lparr>node_blockchain := bc\<rparr>))
              | Inr bc \<Rightarrow>
                  (let n = n\<lparr>node_blockchain := bc\<rparr>
                   in case peer_validators p of
                        Inl err \<Rightarrow> (events, Inl (err, n))
                      | Inr validatorsResponse \<Rightarrow>
                          (case sync_validators B validatorsResponse (node_validatorManager n) of
                             Inl (err, vm) \<Rightarrow>
                               (events, Inl (err, n\<lparr>node_validatorManager := vm\<rparr>))
                           | Inr vm \<Rightarrow>
                               (events,
                                Inr (n\<lparr>node_validatorManager := vm,
                                       node_blockchain :=
                                         bc\<lparr>db := save B vm (db bc)\<rparr>\<rparr>))))))"

text \<open>
  \<open>syncBlockchain\<close> picks the peer at index \<open>floor (Math.random() * n)\<close>; \<open>rnd\<close> is the
  value of \<open>Math.random()\<close>, below 1.
\<close>

definition syncBlockchain ::
  "builtins \<Rightarrow> rat \<Rightarrow> node \<Rightarrow> sync_event list \<times> (error \<times> node + node)" where
  "syncBlockchain B rnd n =
     (if length (node_peers n) = 0 then ([], Inr n)
      else
        (let peerIds = map fst (node_peers n);
             index = nat \<lfloor>rnd * of_nat (length peerIds)\<rfloor>
         in if index < length peerIds
            then syncWithPeer B (snd (node_peers n ! index)) n
            else ([], Inl (Error ''peer not found'', n))))"

definition Block_verifySignature :: "collaborators \<Rightarrow> block \<Rightarrow> bool" where
  "Block_verifySignature C block =
     (case b_signature block of
        None \<Rightarrow> False
      | Some signature \<Rightarrow>
          if signature = [] then False
          else verifyCallback C (b_hash block) signature (b_validator block))"

text \<open>
  \<open>handleBlockMessage\<close> of \<open>P2PNode\<close>, for a message that parses. Everything thrown inside
  is caught and logged, so the handler always returns; the state is as the throw left it.
\<close>

definition handleBlockMessage ::
  "builtins \<Rightarrow> collaborators \<Rightarrow> rat \<Rightarrow> block \<Rightarrow> node \<Rightarrow> node" where
  "handleBlockMessage B C rnd blockData n =
     (let block = Block_fromJSON blockData;
          latestHeight = ourHeight (node_blockchain n);
          latestHash = map_option b_hash (LATEST_BLOCK (db (node_blockchain n)))
      in if b_height block \<le> latestHeight then n
         else if b_height block > latestHeight + 1 then state_of (snd (syncBlockchain B rnd n))
         else if latestHeight \<ge> 0 \<and> Some (b_previousHash block) \<noteq> latestHash then n
         else if \<not> Block_verifySignature C block then n
         else n\<lparr>node_blockchain := state_of (saveBlock B block (node_blockchain n))\<rparr>)"

subsection \<open>Sending a message (\<open>Node.sendMessage\<close>)\<close>

definition maxMessagesPerHour :: nat where
  "maxMessagesPerHour = 200"

definition maxMessagesToAddressPerHour :: nat where
  "maxMessagesToAddressPerHour = 30"

definition sendReward :: rat where
  "sendReward = 3 / 4"

definition receiveReward :: rat where
  "receiveReward = 1 / 4"

definition nonWhitelistedFee :: rat where
  "nonWhitelistedFee = 3 / 4"

text \<open>\<open>Address.isValidAddress\<close>: the pattern \<open>^Dou[1-9a-z]{10}cyA$\<close>.\<close>

definition isValidAddress :: "string \<Rightarrow> bool" where
  "isValidAddress address =
     (length address = 16 \<and> take 3 address = ''Dou'' \<and> drop 13 address = ''cyA''
      \<and> list_all (\<lambda>c. c \<in> set ''123456789abcdefghijklmnopqrstuvwxyz'')
           (take 10 (drop 3 address)))"

definition isWhitelisted :: "database \<Rightarrow> string \<Rightarrow> string \<Rightarrow> bool" where
  "isWhitelisted d owner target =
     (case WHITELIST d owner of None \<Rightarrow> False | Some whitelist \<Rightarrow> Some target \<in> set whitelist)"

text \<open>
  \<open>Transaction.createMessage\<close>: the rewards are passed as a seventh argument, which the
  constructor does not have, so they do not reach the transaction here.
\<close>

definition createMessage ::
  "builtins \<Rightarrow> int \<Rightarrow> string \<Rightarrow> string \<Rightarrow> string \<Rightarrow> bool \<Rightarrow> transaction" where
  "createMessage B now from to msg whitelisted =
     (let fee = (if whitelisted then 0 else nonWhitelistedFee)
      in Transaction B now ''MESSAGE'' (Some from) (Some to) 0 fee
           [(''message'', Str msg), (''isWhitelisted'', Bool whitelisted)])"

definition stats_of :: "node \<Rightarrow> string \<Rightarrow> hourlyStats" where
  "stats_of n fromAddress =
     (case hourly n fromAddress of
        None \<Rightarrow> \<lparr>total = 0, perAddress = Map.empty\<rparr>
      | Some hourlyStats \<Rightarrow> hourlyStats)"

definition count_to :: "hourlyStats \<Rightarrow> string \<Rightarrow> nat" where
  "count_to hourlyStats toAddress =
     (case perAddress hourlyStats toAddress of None \<Rightarrow> 0 | Some c \<Rightarrow> c)"

text \<open>\<open>checkMessageRateLimits\<close>: \<open>None\<close> when it returns, the error when it throws.\<close>

definition checkMessageRateLimits :: "builtins \<Rightarrow> node \<Rightarrow> string \<Rightarrow> string \<Rightarrow> error option" where
  "checkMessageRateLimits B n fromAddress toAddress =
     (let hourlyStats = stats_of n fromAddress
      in if total hourlyStats \<ge> maxMessagesPerHour then
           Some (Error (''Message rate limit exceeded: ''
                          @ numToString B (of_nat (total hourlyStats)) @ ''/''
                          @ numToString B (of_nat maxMessagesPerHour) @ '' messages per hour''))
         else
           (let perAddressCount = count_to hourlyStats toAddress
            in if perAddressCount \<ge> maxMessagesToAddressPerHour then
                 Some (Error (''Message rate limit to '' @ toAddress @ '' exceeded: ''
                                @ numToString B (of_nat perAddressCount) @ ''/''
                                @ numToString B (of_nat maxMessagesToAddressPerHour)
                                @ '' messages per hour''))
               else None))"

definition updateMessageCount :: "string \<Rightarrow> string \<Rightarrow> node \<Rightarrow> node" where
  "updateMessageCount fromAddress toAddress n =
     (let hourlyStats = stats_of n fromAddress;
          hourlyStats = hourlyStats\<lparr>total := total hourlyStats + 1\<rparr>;
          hourlyStats = hourlyStats\<lparr>perAddress :=
                          (perAddress hourlyStats)(toAddress \<mapsto> count_to hourlyStats toAddress + 1)\<rparr>
      in n\<lparr>hourly := (hourly n)(fromAddress \<mapsto> hourlyStats)\<rparr>)"

definition resetMessageCounts :: "node \<Rightarrow> node" where
  "resetMessageCounts n = n\<lparr>hourly := Map.empty\<rparr>"

record sendResult =
  res_status :: string
  res_messageId :: string
  res_reward :: rat
  res_fee :: rat

text \<open>
  \<open>sendMessage\<close>, statement by statement. The rewards or the fee are assigned to the
  transaction after its constructor has computed the hash; \<open>addTransaction\<close> then checks
  the hash. The broadcast changes nothing in the node.
\<close>

definition sendMessage ::
  "builtins \<Rightarrow> collaborators \<Rightarrow> int \<Rightarrow> string \<Rightarrow> string \<Rightarrow> string \<Rightarrow> node
     \<Rightarrow> error \<times> node + sendResult \<times> node" where
  "sendMessage B C now fromAddress toAddress msg n =
     (if \<not> isValidAddress fromAddress \<or> \<not> isValidAddress toAddress
        then Inl (Error ''Invalid address format'', n)
      else case wallet n fromAddress of
        None \<Rightarrow> Inl (Error (''Address '' @ fromAddress @ '' not found in wallet''), n)
      | Some privateKey \<Rightarrow>
          if privateKey = [] then Inl (Error ''Address not found in wallet'', n)
          else case checkMessageRateLimits B n fromAddress toAddress of
            Some err \<Rightarrow> Inl (err, n)
          | None \<Rightarrow>
              (let whitelisted = isWhitelisted (db (node_blockchain n)) toAddress fromAddress;
                   encryptedMessage = encryptMessage C msg toAddress;
                   tx = createMessage B now fromAddress toAddress encryptedMessage whitelisted;
                   tx = (if whitelisted
                         then tx\<lparr>tx_senderReward := Some sendReward,
                                 tx_receiverReward := Some receiveReward\<rparr>
                         else tx\<lparr>tx_fee := nonWhitelistedFee\<rparr>);
                   tx = tx\<lparr>tx_signature := Some (sign C (tx_hash tx) privateKey)\<rparr>
               in case addTransaction B tx (node_blockchain n) of
                    Inl err \<Rightarrow> Inl (err, n)
                  | Inr (txHash, bc) \<Rightarrow>
                      (let n = n\<lparr>node_blockchain := bc\<rparr>;
                           n = updateMessageCount fromAddress toAddress n
                       in Inr (\<lparr>res_status = ''success'', res_messageId = txHash,
                                res_reward = (if whitelisted then sendReward else 0),
                                res_fee = (if whitelisted then 0 else nonWhitelistedFee)\<rparr>,
                              n))))"

section \<open>Quantities the properties are stated with\<close>

text \<open>The numeric value of a reward property: \<open>undefined\<close> counts as 0.\<close>

definition reward_value :: "rat option \<Rightarrow> rat" where
  "reward_value x = (case x of None \<Rightarrow> 0 | Some r \<Rightarrow> r)"

text \<open>
  The reward of a block as the specification words it: the fees, plus one and a half
  times the sender and receiver rewards of its \<open>MESSAGE\<close> transactions.
\<close>

definition block_reward :: "transaction list \<Rightarrow> rat" where
  "block_reward txs =
     sum_list (map tx_fee txs)
     + (3 / 2) * sum_list (map (\<lambda>tx. reward_value (tx_senderReward tx)
                                      + reward_value (tx_receiverReward tx))
                               (filter (\<lambda>tx. tx_type tx = ''MESSAGE'') txs))"

text \<open>
  What the reward loop adds for one transaction, in the order it adds it: the fee, and for
  a \<open>MESSAGE\<close> one and a half times each reward that is there and not 0.
\<close>

definition reward_terms :: "transaction \<Rightarrow> rat list" where
  "reward_terms tx =
     tx_fee tx #
     (if tx_type tx = ''MESSAGE'' then
        (if nonzero (tx_senderReward tx)
         then [js_times (the (tx_senderReward tx)) (3 / 2)] else [])
        @ (if nonzero (tx_receiverReward tx)
           then [js_times (the (tx_receiverReward tx)) (3 / 2)] else [])
      else [])"

text \<open>A number that is a double: rounding leaves it as it is.\<close>

definition representable :: "rat \<Rightarrow> bool" where
  "representable x = (double x = x)"

text \<open>Adding the numbers \<open>xs\<close> to \<open>acc\<close> from left to right, no sum on the way is rounded.\<close>

fun exact_sum :: "rat \<Rightarrow> rat list \<Rightarrow> bool" where
  "exact_sum acc [] = True"
| "exact_sum acc (x # xs) = (representable (acc + x) \<and> exact_sum (acc + x) xs)"

text \<open>
  Nothing is rounded when the reward of the transactions \<open>txs\<close> is computed and added to
  \<open>balance\<close>: not the products by 1.5, not the running total, not the final sum.
\<close>

definition exact_reward :: "rat \<Rightarrow> transaction list \<Rightarrow> bool" where
  "exact_reward balance txs =
     (list_all (\<lambda>tx. tx_type tx = ''MESSAGE'' \<longrightarrow>
                       representable (reward_value (tx_senderReward tx) * (3 / 2))
                       \<and> representable (reward_value (tx_receiverReward tx) * (3 / 2))) txs
      \<and> exact_sum 0 (concat (map reward_terms txs))
      \<and> representable (balance + block_reward txs))"

text \<open>The sum of all recorded balances.\<close>

definition totalBalance :: "database \<Rightarrow> rat" where
  "totalBalance d = (\<Sum>k \<in> dom (BALANCE d). the (BALANCE d k))"

text \<open>The sum of the amounts of the \<open>MINT\<close> and \<open>REWARD\<close> transactions of a block.\<close>

definition mint_reward_total :: "transaction list \<Rightarrow> rat" where
  "mint_reward_total txs =
     sum_list (map tx_amount (filter (\<lambda>tx. tx_type tx \<in> {''MINT'', ''REWARD''}) txs))"

text \<open>
  What applying one transaction adds to the sum of balances, by type, given the validator
  map at that moment: minted and reward amounts come in; a transfer burns its fee; a
  stake leaves the balances with its fee; a withdrawal brings the stake back less the fee;
  a message burns its fee or pays the sender's reward, and pays the receiver's reward.
\<close>

definition supply_change :: "(string option \<times> rat) list \<Rightarrow> transaction \<Rightarrow> rat" where
  "supply_change vals tx =
     (if tx_type tx \<in> {''MINT'', ''REWARD''} then tx_amount tx
      else if tx_type tx = ''TRANSFER'' then - tx_fee tx
      else if tx_type tx = ''VALIDATOR_REGISTER'' then - (tx_amount tx + tx_fee tx)
      else if tx_type tx = ''VALIDATOR_WITHDRAW'' then get_or_0 vals (tx_from tx) - tx_fee tx
      else if tx_type tx = ''MESSAGE'' then
        (if tx_fee tx > 0 then - tx_fee tx
         else if positive (tx_senderReward tx) then reward_value (tx_senderReward tx)
         else 0)
        + (if positive (tx_receiverReward tx) then reward_value (tx_receiverReward tx) else 0)
      else 0)"

definition validators_after ::
  "(string option \<times> rat) list \<Rightarrow> transaction \<Rightarrow> (string option \<times> rat) list" where
  "validators_after vals tx =
     (if tx_type tx = ''VALIDATOR_REGISTER''
        then AList.update (tx_from tx) (get_or_0 vals (tx_from tx) + tx_amount tx) vals
      else if tx_type tx = ''VALIDATOR_WITHDRAW'' then AList.delete (tx_from tx) vals
      else vals)"

fun block_supply_change :: "(string option \<times> rat) list \<Rightarrow> transaction list \<Rightarrow> rat" where
  "block_supply_change vals [] = 0"
| "block_supply_change vals (tx # txs) =
     supply_change vals tx + block_supply_change (validators_after vals tx) txs"

text \<open>A transfer whose sender and recipient are one account is left aside.\<close>

definition distinct_parties :: "transaction \<Rightarrow> bool" where
  "distinct_parties tx =
     (tx_type tx = ''TRANSFER'' \<longrightarrow> template (tx_from tx) \<noteq> template (tx_to tx))"

text \<open>
  None of the sums and differences that applying the transaction to the ledger computes
  is rounded. A \<open>MESSAGE\<close> reads the receiver's balance after it has written the
  sender's.
\<close>

definition exact_application :: "transaction \<Rightarrow> blockchain \<Rightarrow> bool" where
  "exact_application tx bc =
     (let sender = getAddressBalance (db bc) (tx_from tx);
          recipient = getAddressBalance (db bc) (tx_to tx);
          stake = get_or_0 (validators bc) (tx_from tx)
      in if tx_type tx = ''TRANSFER'' then
           representable (sender - tx_amount tx)
           \<and> representable (sender - tx_amount tx - tx_fee tx)
           \<and> representable (recipient + tx_amount tx)
         else if tx_type tx \<in> {''MINT'', ''REWARD''} then
           representable (recipient + tx_amount tx)
         else if tx_type tx = ''VALIDATOR_REGISTER'' then
           representable (sender - tx_amount tx)
           \<and> representable (sender - tx_amount tx - tx_fee tx)
         else if tx_type tx = ''VALIDATOR_WITHDRAW'' then
           representable (sender + stake) \<and> representable (sender + stake - tx_fee tx)
         else if tx_type tx = ''MESSAGE'' then
           (let paid = (if tx_fee tx > 0 then sender - tx_fee tx
                        else if positive (tx_senderReward tx)
                          then sender + reward_value (tx_senderReward tx)
                        else sender);
                receiver = (if template (tx_to tx) = template (tx_from tx)
                            then paid else recipient)
            in (tx_fee tx > 0 \<or> positive (tx_senderReward tx) \<longrightarrow> representable paid)
               \<and> (positive (tx_receiverReward tx)
                    \<longrightarrow> representable (receiver + reward_value (tx_receiverReward tx))))
         else True)"

text \<open>The same for a list of transactions applied in order, each to the ledger the
  ones before it left.\<close>

fun exact_run :: "transaction list \<Rightarrow> blockchain \<Rightarrow> bool" where
  "exact_run [] bc = True"
| "exact_run (tx # txs) bc =
     (exact_application tx bc \<and> exact_run txs (state_of (processTransaction tx bc)))"

text \<open>
  The shape of a sync as the specification words it, checked on the events from height
  \<open>i\<close> and ledger state \<open>bc\<close> on: the block at \<open>i\<close> is requested; the block received is
  applied to the ledger before anything else happens; if that succeeds the same holds
  from \<open>i + 1\<close> on the new state; a request that threw or a block that was rejected is the
  last event.
\<close>

definition response_is :: "peer \<Rightarrow> int \<Rightarrow> block \<Rightarrow> bool" where
  "response_is p i b =
     (case peer_block p i of Inl err \<Rightarrow> False | Inr response \<Rightarrow> b = Block_fromJSON response)"

fun one_at_a_time ::
  "builtins \<Rightarrow> peer \<Rightarrow> int \<Rightarrow> blockchain \<Rightarrow> sync_event list \<Rightarrow> bool" where
  "one_at_a_time B p i bc [] = True"
| "one_at_a_time B p i bc [RequestBlock j] = (j = i \<and> isl (peer_block p i))"
| "one_at_a_time B p i bc (RequestBlock j # Rejected k b # events) =
     (j = i \<and> k = i \<and> events = [] \<and> response_is p i b \<and> \<not> returned (saveBlock B b bc))"
| "one_at_a_time B p i bc (RequestBlock j # Applied k b # events) =
     (j = i \<and> k = i \<and> response_is p i b \<and> returned (saveBlock B b bc)
      \<and> one_at_a_time B p (i + 1) (state_of (saveBlock B b bc)) events)"
| "one_at_a_time B p i bc events = False"

fun requested :: "sync_event list \<Rightarrow> int list" where
  "requested [] = []"
| "requested (RequestBlock i # events) = i # requested events"
| "requested (e # events) = requested events"

section \<open>Example ledgers, blocks and peers\<close>

text \<open>
  Stand-ins for the two builtins, to evaluate examples: the digest of a text is the text
  itself, and every number prints as \<open>0\<close>. No general statement depends on them.
\<close>

definition example_builtins :: builtins where
  "example_builtins = \<lparr>sha256 = (\<lambda>s. s), numToString = (\<lambda>x. ''0'')\<rparr>"

definition empty_database :: database where
  "empty_database =
     \<lparr>BLOCK = Map.empty, BLOCK_HEIGHT = Map.empty, BLOCK_HASH = Map.empty,
      LATEST_BLOCK = None, BALANCE = Map.empty, TX = Map.empty, VALIDATORS = None,
      VALIDATOR_LAST_UPDATE = None, VALIDATOR_MIN_DEPOSIT = None,
      WHITELIST = Map.empty, INBOX = Map.empty, OUTBOX = Map.empty,
      ADDRESS_TXS = Map.empty\<rparr>"

definition alice :: string where
  "alice = ''DouaaaaaaaaaacyA''"

definition bob :: string where
  "bob = ''DoubbbbbbbbbbcyA''"

definition carol :: string where
  "carol = ''DoucccccccccccyA''"

text \<open>A ledger with the given balances and validator map and nothing else.\<close>

definition chain_with :: "(string \<rightharpoonup> rat) \<Rightarrow> (string option \<times> rat) list \<Rightarrow> blockchain" where
  "chain_with balances vals =
     \<lparr>db = empty_database\<lparr>BALANCE := balances\<rparr>, pendingTransactions = [],
      validators = vals, validatorMinDeposit = 50, currentHeight = 0\<rparr>"

definition two_validators :: validatorManager where
  "two_validators =
     \<lparr>vm_validators = [(alice, 10), (bob, 90)], minimumDeposit = 50, lastYearlyUpdate = 0\<rparr>"

definition funded_chain :: blockchain where
  "funded_chain = chain_with [alice \<mapsto> 15000] []"

definition block_of :: "int \<Rightarrow> transaction list \<Rightarrow> block" where
  "block_of h txs =
     \<lparr>b_height = h, b_previousHash = replicate 64 CHR ''0'', b_transactions = txs,
      b_validator = alice, b_timestamp = 0, b_hash = ''h'', b_signature = None\<rparr>"

text \<open>A transfer of 200 with the fee 0.5, hash-consistent as gossip can deliver it.\<close>

definition transfer_200 :: transaction where
  "transfer_200 =
     rehash example_builtins
       (Transaction example_builtins 0 ''TRANSFER'' (Some alice) (Some bob) 200 (1 / 2) [])"

text \<open>A message to a recipient who whitelisted the sender, with the configured rewards.\<close>

definition rewarded_message :: transaction where
  "rewarded_message =
     rehash example_builtins
       ((Transaction example_builtins 0 ''MESSAGE'' (Some alice) (Some bob) 0 0 [])
          \<lparr>tx_senderReward := Some (3 / 4), tx_receiverReward := Some (1 / 4)\<rparr>)"

text \<open>A transfer of 200 from an account to itself.\<close>

definition self_transfer :: transaction where
  "self_transfer =
     rehash example_builtins
       (Transaction example_builtins 0 ''TRANSFER'' (Some alice) (Some alice) 200 0 [])"

text \<open>A message whose sender pays the fee 0.75.\<close>

definition paid_message :: transaction where
  "paid_message =
     rehash example_builtins
       (Transaction example_builtins 0 ''MESSAGE'' (Some alice) (Some bob) 0 (3 / 4) [])"

text \<open>The amounts 0.1, 0.2 and 0.3 are not doubles; the literals denote the nearest ones.\<close>

definition transfer_tenths :: transaction where
  "transfer_tenths =
     rehash example_builtins
       (Transaction example_builtins 0 ''TRANSFER'' (Some alice) (Some bob)
          (double (1 / 5)) (double (1 / 10)) [])"

definition mint_tenth :: transaction where
  "mint_tenth =
     rehash example_builtins
       (Transaction example_builtins 0 ''MINT'' None (Some alice) (double (1 / 10)) 0 [])"

definition node_with :: "blockchain \<Rightarrow> validatorManager \<Rightarrow> node" where
  "node_with bc vm =
     \<lparr>node_blockchain = bc, node_validatorManager = vm, node_peers = [],
      hourly = Map.empty, wallet = [alice \<mapsto> ''key'']\<rparr>"

text \<open>
  A node at height 5 whose store holds the genesis record and a balance, and a peer that
  reports height 6 and answers the request for block 6 with a block of height 0 that
  carries one \<open>MINT\<close> entry. A second peer reports the height \<open>h\<close>, serves blocks
  that continue the node's chain, each with one transfer, and has a validator set that
  gives one local validator another stake and names one that is not known locally.
\<close>

definition node_at_5 :: node where
  "node_at_5 =
     node_with
       ((chain_with [alice \<mapsto> 15000] [])
          \<lparr>db := empty_database
                   \<lparr>BALANCE := [alice \<mapsto> 15000],
                    BLOCK_HEIGHT := [0 \<mapsto> ''genesis'', 5 \<mapsto> ''head''],
                    LATEST_BLOCK := Some ((block_of 5 [])\<lparr>b_hash := ''head''\<rparr>)\<rparr>,
            currentHeight := 5\<rparr>)
       two_validators"

definition stale_block :: block where
  "stale_block =
     block_of 0 [\<lparr>tx_type = ''MINT'', tx_from = None, tx_to = Some alice, tx_amount = 1,
                  tx_fee = 0, tx_data = [], tx_timestamp = 0, tx_hash = ''m'',
                  tx_signature = None, tx_senderReward = None, tx_receiverReward = None,
                  tx_instance = False\<rparr>]"

definition stale_peer :: peer where
  "stale_peer =
     \<lparr>peer_height = Inr (Some 6), peer_block = (\<lambda>i. Inr stale_block),
      peer_validators = Inr []\<rparr>"

definition served_block :: "int \<Rightarrow> block" where
  "served_block i =
     (block_of i [transfer_200])\<lparr>b_previousHash := (if i = 6 then ''head'' else ''h'')\<rparr>"

definition peer_at :: "int \<Rightarrow> peer" where
  "peer_at h =
     \<lparr>peer_height = Inr (Some h), peer_block = (\<lambda>i. Inr (served_block i)),
      peer_validators = Inr [(alice, 500), (carol, 60)]\<rparr>"

definition example_collaborators :: collaborators where
  "example_collaborators =
     \<lparr>sign = (\<lambda>data privateKey. ''signature''),
      verifyCallback = (\<lambda>hash signature address. True),
      encryptMessage = (\<lambda>msg recipient. msg)\<rparr>"

text \<open>
  A ledger on which the validator can produce a block: a latest block, one pending
  transfer between two other accounts, and the validator's stake.
\<close>

definition pending_transfer :: transaction where
  "pending_transfer =
     rehash example_builtins
       (Transaction example_builtins 0 ''TRANSFER'' (Some bob) (Some carol) 200 (1 / 2) [])"

definition ready_chain :: blockchain where
  "ready_chain =
     \<lparr>db = empty_database\<lparr>BALANCE := [bob \<mapsto> 500], LATEST_BLOCK := Some (block_of 0 [])\<rparr>,
      pendingTransactions = [pending_transfer],
      validators = [(Some alice, 60)], validatorMinDeposit = 50, currentHeight = 0\<rparr>"

text \<open>A block with a transfer that pays the fee 0.5 and a message that carries rewards.\<close>

definition rewarding_block :: block where
  "rewarding_block = block_of 1 [transfer_200, rewarded_message]"

section \<open>Properties of the transaction hash\<close>

lemma length_join_snoc2:
  "sep \<noteq> [] \<Longrightarrow> length (join sep xs) < length (join sep (xs @ [y, z]))"
  by (induction sep xs rule: join.induct) auto

lemma stringify_js_string [simp]:
  "stringify N (js_string a) = Some (case a of None \<Rightarrow> ''null'' | Some s \<Rightarrow> quote s)"
  by (simp add: js_string_def split: option.splits)

text \<open>
  The text hashed once both reward properties exist is strictly longer than the text
  hashed while they are still \<open>undefined\<close>: \<open>JSON.stringify\<close> leaves the two members out
  in the second case.
\<close>

lemma rewards_lengthen_hash_input:
  assumes "tx_senderReward t = Some a" and "tx_receiverReward t = Some b"
  shows "length (JSON_stringify N (txData (t\<lparr>tx_senderReward := None, tx_receiverReward := None\<rparr>)))
           < length (JSON_stringify N (txData t))"
proof -
  let ?u = "t\<lparr>tx_senderReward := None, tx_receiverReward := None\<rparr>"
  have "\<exists>y z. stringify_members N (txData t) = stringify_members N (txData ?u) @ [y, z]"
    using assms by (simp add: txData_def js_number_def)
  then obtain y z
    where e: "stringify_members N (txData t) = stringify_members N (txData ?u) @ [y, z]"
    by blast
  show ?thesis
    unfolding JSON_stringify_def e using length_join_snoc2 [of "'',''"] by simp
qed

text \<open>
  C1. The hash stored by the constructor is the digest of the JSON text without the members
  \<open>senderReward\<close> and \<open>receiverReward\<close>; the recomputation in \<open>verifyHash\<close> is the digest
  of the text with them. The two texts differ for every transaction, so \<open>verifyHash()\<close>
  right after construction holds exactly when SHA-256 collides on them.
\<close>

theorem Transaction_hash_not_recomputed:
  "let T = Transaction B now type from to amount fee data;
       T0 = T\<lparr>tx_senderReward := None, tx_receiverReward := None\<rparr>;
       stored = JSON_stringify (numToString B) (txData T0);
       recomputed = JSON_stringify (numToString B) (txData T)
   in tx_hash T = sha256 B stored
      \<and> calculateHash B T = sha256 B recomputed
      \<and> length stored < length recomputed
      \<and> verifyHash B T = (sha256 B stored = sha256 B recomputed)"
proof -
  let ?T = "Transaction B now type from to amount fee data"
  let ?U = "?T\<lparr>tx_senderReward := None, tx_receiverReward := None\<rparr>"
  have stored: "tx_hash ?T = sha256 B (JSON_stringify (numToString B) (txData ?U))"
    by (simp add: Transaction_def calculateHash_def txData_def)
  have len: "length (JSON_stringify (numToString B) (txData ?U))
               < length (JSON_stringify (numToString B) (txData ?T))"
    by (rule rewards_lengthen_hash_input) (simp_all add: Transaction_def)
  show ?thesis
    using stored len by (simp add: Let_def verifyHash_def calculateHash_def)
qed

lemma calculateHash_tx_hash_update [simp]:
  "calculateHash B (tx\<lparr>tx_hash := h\<rparr>) = calculateHash B tx"
  by (simp add: calculateHash_def txData_def)

lemma verifyHash_rehash [simp]: "verifyHash B (rehash B tx)"
  by (simp add: verifyHash_def rehash_def)

lemma tx_fields_rehash [simp]:
  "tx_type (rehash B tx) = tx_type tx"
  "tx_from (rehash B tx) = tx_from tx"
  "tx_to (rehash B tx) = tx_to tx"
  "tx_amount (rehash B tx) = tx_amount tx"
  "tx_fee (rehash B tx) = tx_fee tx"
  "tx_instance (rehash B tx) = tx_instance tx"
  "tx_senderReward (rehash B tx) = tx_senderReward tx"
  "tx_receiverReward (rehash B tx) = tx_receiverReward tx"
  by (simp_all add: rehash_def)

section \<open>Sending a message and the rate limiter\<close>

lemma txData_signature [simp]: "txData (tx\<lparr>tx_signature := s\<rparr>) = txData tx"
  by (simp add: txData_def)

lemma verifyHash_collision:
  assumes "tx_senderReward tx = Some a" and "tx_receiverReward tx = Some b"
    and "tx_hash tx = calculateHash B (tx\<lparr>tx_senderReward := None, tx_receiverReward := None\<rparr>)"
    and "verifyHash B tx"
  shows "\<exists>s1 s2. length s1 < length s2 \<and> sha256 B s1 = sha256 B s2"
proof -
  let ?s1 = "JSON_stringify (numToString B) (txData (tx\<lparr>tx_senderReward := None, tx_receiverReward := None\<rparr>))"
  let ?s2 = "JSON_stringify (numToString B) (txData tx)"
  have "length ?s1 < length ?s2"
    using assms(1,2) by (rule rewards_lengthen_hash_input)
  moreover have "sha256 B ?s1 = sha256 B ?s2"
    using assms(3,4) by (simp add: verifyHash_def calculateHash_def)
  ultimately show ?thesis by blast
qed

text \<open>
  C7 on the code. A \<open>sendMessage\<close> that passes the address, wallet and rate-limit checks
  builds its transaction with the constructor, assigns the rewards or the fee, and hands
  it to \<open>addTransaction\<close>, which recomputes the hash over a longer text than the one the
  constructor hashed. So the call throws \<open>Invalid transaction hash\<close> and leaves the node
  as it was, counters included, unless SHA-256 collides on two texts of different
  lengths: no submission succeeds, the first no more than the 201st.
\<close>

theorem sendMessage_invalid_hash:
  assumes "isValidAddress fromAddress" and "isValidAddress toAddress"
    and "wallet n fromAddress = Some privateKey" and "privateKey \<noteq> []"
    and "checkMessageRateLimits B n fromAddress toAddress = None"
  shows "sendMessage B C now fromAddress toAddress msg n
           = Inl (Error ''Invalid transaction hash'', n)
       \<or> (\<exists>s1 s2. length s1 < length s2 \<and> sha256 B s1 = sha256 B s2)"
proof -
  define whitelisted where "whitelisted = isWhitelisted (db (node_blockchain n)) toAddress fromAddress"
  define tx0 where "tx0 = createMessage B now fromAddress toAddress (encryptMessage C msg toAddress) whitelisted"
  define tx1 where "tx1 = (if whitelisted
                         then tx0\<lparr>tx_senderReward := Some sendReward,
                                 tx_receiverReward := Some receiveReward\<rparr>
                         else tx0\<lparr>tx_fee := nonWhitelistedFee\<rparr>)"
  define tx where "tx = tx1\<lparr>tx_signature := Some (sign C (tx_hash tx1) privateKey)\<rparr>"
  have send: "sendMessage B C now fromAddress toAddress msg n =
     (case addTransaction B tx (node_blockchain n) of
        Inl err \<Rightarrow> Inl (err, n)
      | Inr (txHash, bc) \<Rightarrow>
          (let n = n\<lparr>node_blockchain := bc\<rparr>;
               n = updateMessageCount fromAddress toAddress n
           in Inr (\<lparr>res_status = ''success'', res_messageId = txHash,
                    res_reward = (if whitelisted then sendReward else 0),
                    res_fee = (if whitelisted then 0 else nonWhitelistedFee)\<rparr>, n)))"
    using assms unfolding sendMessage_def tx_def tx1_def tx0_def whitelisted_def Let_def by simp
  have inst: "tx_instance tx"
    by (simp add: tx_def tx1_def tx0_def createMessage_def Transaction_def Let_def)
  have rew: "\<exists>a. tx_senderReward tx = Some a" "\<exists>b. tx_receiverReward tx = Some b"
    by (simp_all add: tx_def tx1_def tx0_def createMessage_def Transaction_def Let_def)
  have stored: "tx_hash tx = calculateHash B (tx\<lparr>tx_senderReward := None, tx_receiverReward := None\<rparr>)"
    by (simp add: tx_def tx1_def tx0_def createMessage_def Transaction_def Let_def
          calculateHash_def txData_def)
  show ?thesis
  proof (cases "verifyHash B tx")
    case True
    then show ?thesis using rew stored verifyHash_collision [of tx _ _ B] by blast
  next
    case False
    then have "addTransaction B tx (node_blockchain n) = Inl (Error ''Invalid transaction hash'')"
      using inst by (simp add: addTransaction_def)
    then show ?thesis using send by simp
  qed
qed

lemma isValidAddress_alice_bob: "isValidAddress alice" "isValidAddress bob"
  by (simp_all add: isValidAddress_def alice_def bob_def)

theorem sendMessage_invalid_hash_witness:
  "isValidAddress alice \<and> isValidAddress bob
   \<and> wallet (node_with funded_chain two_validators) alice = Some ''key'' \<and> ''key'' \<noteq> []
   \<and> checkMessageRateLimits example_builtins (node_with funded_chain two_validators) alice bob = None
   \<and> sendMessage example_builtins example_collaborators 0 alice bob ''hello'' (node_with funded_chain two_validators)
       = Inl (Error ''Invalid transaction hash'', node_with funded_chain two_validators)"
proof -
  let ?n = "node_with funded_chain two_validators"
  have h1: "isValidAddress alice" and h2: "isValidAddress bob"
    by (rule isValidAddress_alice_bob)+
  have h3: "wallet ?n alice = Some ''key''" by (simp add: node_with_def)
  have h4: "''key'' \<noteq> []" by simp
  have h5: "checkMessageRateLimits example_builtins ?n alice bob = None"
    by (simp add: checkMessageRateLimits_def stats_of_def node_with_def count_to_def
          maxMessagesPerHour_def maxMessagesToAddressPerHour_def)
  have nocoll: "\<not> (\<exists>s1 s2. length s1 < length s2 \<and> sha256 example_builtins s1 = sha256 example_builtins s2)"
    by (auto simp add: example_builtins_def)
  show ?thesis
    using h1 h2 h3 h4 h5 nocoll
      sendMessage_invalid_hash [OF h1 h2 h3 h4 h5, of example_collaborators 0 "''hello''"]
    by blast
qed

text \<open>
  The limiter by itself is as the specification describes it: the check passes exactly
  below 200 messages in total and below 30 to the recipient, each counted message raises
  both counters by one, and after a reset the check passes again.
\<close>

lemma checkMessageRateLimits_iff:
  "checkMessageRateLimits B n fromAddress toAddress = None
     \<longleftrightarrow> total (stats_of n fromAddress) < 200
          \<and> count_to (stats_of n fromAddress) toAddress < 30"
  by (auto simp add: checkMessageRateLimits_def Let_def maxMessagesPerHour_def
        maxMessagesToAddressPerHour_def)

lemma updateMessageCount_counts:
  "total (stats_of (updateMessageCount fromAddress toAddress n) fromAddress)
     = total (stats_of n fromAddress) + 1"
  "count_to (stats_of (updateMessageCount fromAddress toAddress n) fromAddress) toAddress
     = count_to (stats_of n fromAddress) toAddress + 1"
  by (simp_all add: updateMessageCount_def stats_of_def count_to_def Let_def)

lemma resetMessageCounts_allows:
  "checkMessageRateLimits B (resetMessageCounts n) fromAddress toAddress = None"
  by (simp add: checkMessageRateLimits_def resetMessageCounts_def stats_of_def count_to_def
        Let_def maxMessagesPerHour_def maxMessagesToAddressPerHour_def)

section \<open>Validator selection and stake\<close>

lemma select_loop_mem: "select_loop es c r = Some a \<Longrightarrow> a \<in> fst ` set es"
  by (induction es c r rule: select_loop.induct) (auto simp add: Let_def split: if_splits)

lemma selectNextValidator_mem:
  assumes "vm_validators vm \<noteq> []"
  shows "\<exists>address. selectNextValidator vm rnd = Some address
                   \<and> address \<in> fst ` set (vm_validators vm)"
proof -
  let ?entries = "vm_validators vm"
  let ?random = "rnd * foldl (\<lambda>total (_, stake). total + stake) 0 ?entries"
  show ?thesis
  proof (cases "select_loop ?entries 0 ?random")
    case None
    then have "selectNextValidator vm rnd = Some (fst (?entries ! 0))"
      using assms by (simp add: selectNextValidator_def Let_def)
    moreover have "fst (?entries ! 0) \<in> fst ` set ?entries"
      using assms by (cases ?entries) simp_all
    ultimately show ?thesis by blast
  next
    case (Some address)
    then have "selectNextValidator vm rnd = Some address"
      using assms by (simp add: selectNextValidator_def Let_def)
    moreover have "address \<in> fst ` set ?entries"
      using Some by (rule select_loop_mem)
    ultimately show ?thesis by blast
  qed
qed

text \<open>
  C9. On an empty registry \<open>selectNextValidator\<close> returns \<open>null\<close>; it is a total function,
  so nothing is thrown. On a non-empty registry it returns the address of a registered
  validator, whatever the random draw is.
\<close>

theorem selectNextValidator_registered:
  "(vm_validators vm = [] \<longrightarrow> selectNextValidator vm rnd = None)
   \<and> (vm_validators vm \<noteq> [] \<longrightarrow>
        (\<exists>address. selectNextValidator vm rnd = Some address
                    \<and> map_of (vm_validators vm) address \<noteq> None))"
proof (intro conjI impI)
  assume "vm_validators vm = []"
  then show "selectNextValidator vm rnd = None"
    by (simp add: selectNextValidator_def)
next
  assume "vm_validators vm \<noteq> []"
  then obtain address where "selectNextValidator vm rnd = Some address"
    and "address \<in> fst ` set (vm_validators vm)"
    using selectNextValidator_mem by blast
  then show "\<exists>address. selectNextValidator vm rnd = Some address
                       \<and> map_of (vm_validators vm) address \<noteq> None"
    by (auto simp add: map_of_eq_None_iff)
qed

theorem selectNextValidator_registered_witness:
  "vm_validators two_validators \<noteq> []
   \<and> selectNextValidator two_validators (1 / 2) = Some bob
   \<and> map_of (vm_validators two_validators) bob \<noteq> None
   \<and> selectNextValidator (two_validators\<lparr>vm_validators := []\<rparr>) (1 / 2) = None"
  using selectNextValidator_registered [of two_validators "1 / 2"]
    selectNextValidator_registered [of "two_validators\<lparr>vm_validators := []\<rparr>" "1 / 2"]
  by (simp add: two_validators_def selectNextValidator_def alice_def bob_def)



section \<open>Rounding\<close>

lemma double_0 [simp]: "double 0 = 0"
  by (simp add: double_def)

lemma representable_0 [simp]: "representable 0"
  by (simp add: representable_def)

text \<open>
  The literals 0.1, 0.2 and 0.3 and the sum 0.2 + 0.1 as JavaScript has them: the sum is
  rounded up, to the double after the one that 0.3 denotes.
\<close>

lemma double_tenths:
  "double (1 / 10) = 3602879701896397 / 36028797018963968"
  "double (1 / 5) = 3602879701896397 / 18014398509481984"
  "double (3 / 10) = 5404319552844595 / 18014398509481984"
  "js_plus (double (1 / 5)) (double (1 / 10)) = 5404319552844596 / 18014398509481984"
  by (code_simp+)

text \<open>
  A tie goes to the even significand: above \<open>2 ^ 53\<close> the doubles are the even integers,
  and an odd integer lies halfway between two of them.
\<close>

lemma double_ties:
  "double 9007199254740993 = 9007199254740992"
  "double 9007199254740995 = 9007199254740996"
  "double (- 9007199254740993) = - 9007199254740992"
  "double (1 + 1 / 2 ^ 60) = 1"
  by (code_simp+)

text \<open>Doubles that the examples below compute with.\<close>

lemma double_examples [simp]:
  "double 200 = 200"
  "double 14800 = 14800"
  "double 15200 = 15200"
  "double (29599 / 2) = 29599 / 2"
  "double (401 / 2) = 401 / 2"
  "double (1 / 2) = 1 / 2"
  "double (1 / 4) = 1 / 4"
  "double (3 / 4) = 3 / 4"
  "double (3 / 8) = 3 / 8"
  "double (9 / 8) = 9 / 8"
  "double (13 / 8) = 13 / 8"
  "double 2 = 2"
  "double 12 = 12"
  "double (60003 / 4) = 60003 / 4"
  by (code_simp+)

section \<open>The validity predicate\<close>

lemma transfer_200_fields [simp]:
  "tx_instance transfer_200" "verifyHash example_builtins transfer_200"
  "tx_type transfer_200 = ''TRANSFER''" "tx_from transfer_200 = Some alice"
  "tx_to transfer_200 = Some bob" "tx_amount transfer_200 = 200" "tx_fee transfer_200 = 1 / 2"
  "tx_senderReward transfer_200 = Some 0" "tx_receiverReward transfer_200 = Some 0"
  by (simp_all add: transfer_200_def Transaction_def reward_or_0_def)

lemma paid_message_fields [simp]:
  "tx_instance paid_message" "verifyHash example_builtins paid_message"
  "tx_type paid_message = ''MESSAGE''" "tx_from paid_message = Some alice"
  "tx_to paid_message = Some bob" "tx_amount paid_message = 0" "tx_fee paid_message = 3 / 4"
  by (simp_all add: paid_message_def Transaction_def)

lemma transfer_tenths_fields:
  "tx_instance transfer_tenths" "verifyHash example_builtins transfer_tenths"
  "tx_type transfer_tenths = ''TRANSFER''" "tx_from transfer_tenths = Some alice"
  "tx_to transfer_tenths = Some bob" "tx_amount transfer_tenths = double (1 / 5)"
  "tx_fee transfer_tenths = double (1 / 10)"
  by (simp_all add: transfer_tenths_def Transaction_def)

lemma getAddressBalance_chain_with [simp]:
  "getAddressBalance (db (chain_with [a \<mapsto> v] vals)) (Some a) = v"
  by (simp add: getAddressBalance_def chain_with_def empty_database_def template_def)

text \<open>
  What the code returns for a \<open>MESSAGE\<close>, whatever the balance: the balance is compared
  with the fee only under the guard \<open>fee > 0\<close>.
\<close>

lemma isTransactionValid_message:
  assumes "tx_instance t" and "verifyHash B t" and "tx_type t = ''MESSAGE''"
  shows "isTransactionValid B bc t
           = Inr (tx_fee t \<le> 0 \<or> getAddressBalance (db bc) (tx_from t) \<ge> tx_fee t)"
  using assms by (auto simp add: isTransactionValid_def)

text \<open>
  C4. For a \<open>Transaction\<close> whose hash is consistent, \<open>isTransactionValid\<close> returns the
  table of the specification. The sum \<open>amount + fee\<close> is the sum as the code computes it,
  a double. For a \<open>MESSAGE\<close> the row "fee = 0 or the sender's balance is at least the fee"
  is what the code returns on every balance that is not negative, which is what the
  specification's data model allows a balance to be.
\<close>

theorem isTransactionValid_table:
  assumes "tx_instance t" and "verifyHash B t"
  shows "(tx_type t = ''TRANSFER'' \<longrightarrow>
            isTransactionValid B bc t
              = Inr (getAddressBalance (db bc) (tx_from t) \<ge> js_plus (tx_amount t) (tx_fee t)))
       \<and> (tx_type t = ''VALIDATOR_REGISTER'' \<longrightarrow>
            isTransactionValid B bc t
              = Inr (getAddressBalance (db bc) (tx_from t) \<ge> js_plus (tx_amount t) (tx_fee t)
                     \<and> tx_amount t \<ge> validatorMinDeposit bc))
       \<and> (tx_type t = ''VALIDATOR_WITHDRAW'' \<longrightarrow>
            isTransactionValid B bc t = Inr (map_of (validators bc) (tx_from t) \<noteq> None))
       \<and> (tx_type t = ''MESSAGE'' \<longrightarrow> 0 \<le> getAddressBalance (db bc) (tx_from t) \<longrightarrow>
            isTransactionValid B bc t
              = Inr (tx_fee t = 0 \<or> getAddressBalance (db bc) (tx_from t) \<ge> tx_fee t))
       \<and> (tx_type t \<in> {''MINT'', ''REWARD'', ''WHITELIST''} \<longrightarrow>
            isTransactionValid B bc t = Inr True)"
  using assms by (auto simp add: isTransactionValid_def Map_has_def)

theorem isTransactionValid_table_witness:
  "tx_instance paid_message \<and> verifyHash example_builtins paid_message
   \<and> tx_type paid_message = ''MESSAGE''
   \<and> 0 \<le> getAddressBalance (db (chain_with [alice \<mapsto> 5] [])) (tx_from paid_message)
   \<and> isTransactionValid example_builtins (chain_with [alice \<mapsto> 5] []) paid_message = Inr True
   \<and> isTransactionValid example_builtins (chain_with [alice \<mapsto> 1 / 2] []) paid_message = Inr False
   \<and> tx_instance transfer_200 \<and> verifyHash example_builtins transfer_200
   \<and> tx_type transfer_200 = ''TRANSFER''
   \<and> isTransactionValid example_builtins (chain_with [alice \<mapsto> 15000] []) transfer_200 = Inr True
   \<and> isTransactionValid example_builtins (chain_with [alice \<mapsto> 200] []) transfer_200 = Inr False"
  using isTransactionValid_table [of paid_message example_builtins "chain_with [alice \<mapsto> 5] []"]
    isTransactionValid_table [of paid_message example_builtins "chain_with [alice \<mapsto> 1 / 2] []"]
    isTransactionValid_table [of transfer_200 example_builtins "chain_with [alice \<mapsto> 15000] []"]
    isTransactionValid_table [of transfer_200 example_builtins "chain_with [alice \<mapsto> 200] []"]
  by (simp add: js_plus_def)

text \<open>
  The comparison is one of doubles. With the balance 0.3, a transfer of 0.2 with the fee
  0.1 is not valid: the sum 0.2 + 0.1 is rounded up to the double after 0.3. With the
  balance 0.30000000000000004, which is that sum, it is valid.
\<close>

lemma isTransactionValid_compares_doubles:
  "isTransactionValid example_builtins (chain_with [alice \<mapsto> double (3 / 10)] []) transfer_tenths
     = Inr False"
  "isTransactionValid example_builtins
       (chain_with [alice \<mapsto> js_plus (double (1 / 5)) (double (1 / 10))] []) transfer_tenths
     = Inr True"
proof -
  have s: "js_plus (tx_amount transfer_tenths) (tx_fee transfer_tenths)
             = 5404319552844596 / 18014398509481984"
    unfolding transfer_tenths_fields by (rule double_tenths(4))
  show "isTransactionValid example_builtins (chain_with [alice \<mapsto> double (3 / 10)] [])
          transfer_tenths = Inr False"
    using transfer_tenths_fields(1-4)
    by (simp add: isTransactionValid_def s double_tenths(3))
  show "isTransactionValid example_builtins
          (chain_with [alice \<mapsto> js_plus (double (1 / 5)) (double (1 / 10))] []) transfer_tenths
        = Inr True"
    using transfer_tenths_fields(1-4)
    by (simp add: isTransactionValid_def s double_tenths(4))
qed

section \<open>\<open>saveBlock\<close> does not save\<close>

text \<open>
  \<open>Block.toJSON\<close> returns for no block: a result would need the result of the same call.
\<close>

lemma Block_toJSON_never_returns: "Block_toJSON N this = None"
proof (cases "Block_toJSON N this")
  case None
  then show ?thesis .
next
  case (Some json)
  have False
    by (rule Block_toJSON.raw_induct [where P = "\<lambda>N this json. False", OF _ Some])
       (auto simp add: Option.bind_eq_Some_conv)
  then show ?thesis ..
qed

text \<open>
  Every call of \<open>saveBlock\<close> throws, whatever the block and the ledger, and leaves the
  ledger as it was: the call \<open>block.toJSON()\<close> in its first statement does not return.
\<close>

lemma saveBlock_throws:
  "saveBlock B block bc
     = Inl (Error ''Failed to save block: Maximum call stack size exceeded'', bc)"
  by (simp add: saveBlock_def Block_toJSON_never_returns)

section \<open>The sum of balances\<close>

lemma js_exact:
  "representable (x + y) \<Longrightarrow> js_plus x y = x + y"
  "representable (x - y) \<Longrightarrow> js_minus x y = x - y"
  "representable (x * y) \<Longrightarrow> js_times x y = x * y"
  by (simp_all add: representable_def js_plus_def js_minus_def js_times_def)

lemma getAddressBalance_put_BALANCE:
  "getAddressBalance (put_BALANCE a v d) a'
     = (if template a' = template a then v else getAddressBalance d a')"
  by (simp add: getAddressBalance_def put_BALANCE_def)

lemma getAddressBalance_TX_update [simp]:
  "getAddressBalance (d\<lparr>TX := x\<rparr>) a = getAddressBalance d a"
  by (simp add: getAddressBalance_def)

lemma totalBalance_put_BALANCE:
  assumes "finite (dom (BALANCE d))"
  shows "totalBalance (put_BALANCE a v d) = totalBalance d - getAddressBalance d a + v"
proof -
  let ?m = "BALANCE d" and ?k = "template a"
  have dom: "dom (?m(?k \<mapsto> v)) = insert ?k (dom ?m - {?k})" by auto
  have fin: "finite (dom ?m - {?k})" using assms by simp
  have rest: "(\<Sum>x \<in> dom ?m - {?k}. the ((?m(?k \<mapsto> v)) x)) = (\<Sum>x \<in> dom ?m - {?k}. the (?m x))"
    by (rule sum.cong) auto
  have b: "BALANCE (put_BALANCE a v d) = ?m(?k \<mapsto> v)"
    by (simp add: put_BALANCE_def)
  have "totalBalance (put_BALANCE a v d)
          = (\<Sum>x \<in> insert ?k (dom ?m - {?k}). the ((?m(?k \<mapsto> v)) x))"
    unfolding totalBalance_def b dom ..
  also have "\<dots> = the ((?m(?k \<mapsto> v)) ?k) + (\<Sum>x \<in> dom ?m - {?k}. the ((?m(?k \<mapsto> v)) x))"
    using fin by (rule sum.insert) simp
  finally have new: "totalBalance (put_BALANCE a v d) = v + (\<Sum>x \<in> dom ?m - {?k}. the (?m x))"
    using rest by simp
  have old: "totalBalance d = getAddressBalance d a + (\<Sum>x \<in> dom ?m - {?k}. the (?m x))"
  proof (cases "?m ?k")
    case None
    then have "dom ?m - {?k} = dom ?m" by auto
    then show ?thesis using None by (simp add: totalBalance_def getAddressBalance_def)
  next
    case (Some b)
    then have "?k \<in> dom ?m" by auto
    then show ?thesis
      using Some assms by (simp add: totalBalance_def getAddressBalance_def sum.remove)
  qed
  show ?thesis using new old by simp
qed

lemma finite_dom_put_BALANCE [simp]:
  "finite (dom (BALANCE (put_BALANCE a v d))) = finite (dom (BALANCE d))"
  by (simp add: put_BALANCE_def)

lemma totalBalance_eqI: "BALANCE d = BALANCE d' \<Longrightarrow> totalBalance d = totalBalance d'"
  by (simp add: totalBalance_def)

lemma BALANCE_storeMessage [simp]: "BALANCE (storeMessage tx d) = BALANCE d"
  by (simp add: storeMessage_def Let_def)

lemma saveValidators_frame [simp]:
  "BALANCE (db (saveValidators bc)) = BALANCE (db bc)"
  "validators (saveValidators bc) = validators bc"
  by (simp_all add: saveValidators_def Let_def)

lemma addToAddressTransactions_frame [simp]:
  "BALANCE (db (addToAddressTransactions a h bc)) = BALANCE (db bc)"
  "validators (addToAddressTransactions a h bc) = validators bc"
  by (simp_all add: addToAddressTransactions_def Let_def)

lemma transfer_effect:
  assumes "finite (dom (BALANCE (db bc)))" and "template (tx_from tx) \<noteq> template (tx_to tx)"
    and "tx_type tx = ''TRANSFER''" and "exact_application tx bc"
  shows "totalBalance (db (processTransferTransaction tx bc)) = totalBalance (db bc) - tx_fee tx"
    and "finite (dom (BALANCE (db (processTransferTransaction tx bc))))"
    and "validators (processTransferTransaction tx bc) = validators bc"
  using assms
  by (simp_all add: processTransferTransaction_def Let_def totalBalance_put_BALANCE
        getAddressBalance_put_BALANCE exact_application_def js_exact)

lemma mint_effect:
  assumes "finite (dom (BALANCE (db bc)))"
    and "tx_type tx = ''MINT''" and "exact_application tx bc"
  shows "totalBalance (db (processMintTransaction tx bc)) = totalBalance (db bc) + tx_amount tx"
    and "finite (dom (BALANCE (db (processMintTransaction tx bc))))"
    and "validators (processMintTransaction tx bc) = validators bc"
  using assms
  by (simp_all add: processMintTransaction_def Let_def totalBalance_put_BALANCE
        exact_application_def js_exact)

lemma reward_effect:
  assumes "finite (dom (BALANCE (db bc)))"
    and "tx_type tx = ''REWARD''" and "exact_application tx bc"
  shows "totalBalance (db (processRewardTransaction tx bc)) = totalBalance (db bc) + tx_amount tx"
    and "finite (dom (BALANCE (db (processRewardTransaction tx bc))))"
    and "validators (processRewardTransaction tx bc) = validators bc"
  using assms
  by (simp_all add: processRewardTransaction_def Let_def totalBalance_put_BALANCE
        exact_application_def js_exact)

lemma registration_effect:
  assumes "finite (dom (BALANCE (db bc)))"
    and "tx_type tx = ''VALIDATOR_REGISTER''" and "exact_application tx bc"
  shows "totalBalance (db (processValidatorRegistration tx bc))
           = totalBalance (db bc) - (tx_amount tx + tx_fee tx)"
    and "finite (dom (BALANCE (db (processValidatorRegistration tx bc))))"
    and "validators (processValidatorRegistration tx bc)
           = AList.update (tx_from tx) (get_or_0 (validators bc) (tx_from tx) + tx_amount tx)
               (validators bc)"
  using assms
  by (simp_all add: processValidatorRegistration_def Let_def totalBalance_put_BALANCE
        exact_application_def js_exact
        totalBalance_eqI [of "db (saveValidators bc')" "db bc'" for bc'])

lemma withdrawal_effect:
  assumes "finite (dom (BALANCE (db bc)))" and "processValidatorWithdrawal tx bc = Inr bc'"
    and "tx_type tx = ''VALIDATOR_WITHDRAW''" and "exact_application tx bc"
  shows "totalBalance (db bc')
           = totalBalance (db bc) + (get_or_0 (validators bc) (tx_from tx) - tx_fee tx)"
    and "finite (dom (BALANCE (db bc')))"
    and "validators bc' = AList.delete (tx_from tx) (validators bc)"
  using assms
  by (auto simp add: processValidatorWithdrawal_def Let_def totalBalance_put_BALANCE get_or_0_def
        exact_application_def js_exact
        totalBalance_eqI [of "db (saveValidators bc')" "db bc'" for bc']
      split: option.splits)

lemma message_effect:
  assumes "finite (dom (BALANCE (db bc)))"
    and "tx_type tx = ''MESSAGE''" and "exact_application tx bc"
  shows "totalBalance (db (processMessageTransaction tx bc))
           = totalBalance (db bc)
             + ((if tx_fee tx > 0 then - tx_fee tx
                 else if positive (tx_senderReward tx) then reward_value (tx_senderReward tx)
                 else 0)
                + (if positive (tx_receiverReward tx) then reward_value (tx_receiverReward tx)
                   else 0))"
    and "finite (dom (BALANCE (db (processMessageTransaction tx bc))))"
    and "validators (processMessageTransaction tx bc) = validators bc"
proof -
  have same: "template (tx_to tx) = template (tx_from tx) \<Longrightarrow>
                getAddressBalance (db bc) (tx_to tx) = getAddressBalance (db bc) (tx_from tx)"
    by (simp add: getAddressBalance_def)
  show "totalBalance (db (processMessageTransaction tx bc))
           = totalBalance (db bc)
             + ((if tx_fee tx > 0 then - tx_fee tx
                 else if positive (tx_senderReward tx) then reward_value (tx_senderReward tx)
                 else 0)
                + (if positive (tx_receiverReward tx) then reward_value (tx_receiverReward tx)
                   else 0))"
    using assms
    by (cases "template (tx_to tx) = template (tx_from tx)")
       (auto simp add: processMessageTransaction_def Let_def totalBalance_put_BALANCE
          getAddressBalance_put_BALANCE positive_def reward_value_def
          exact_application_def js_exact same
          totalBalance_eqI [of "storeMessage tx d" d for d]
        split: option.splits)
  show "finite (dom (BALANCE (db (processMessageTransaction tx bc))))"
    using assms(1) by (simp add: processMessageTransaction_def Let_def)
  show "validators (processMessageTransaction tx bc) = validators bc"
    by (simp add: processMessageTransaction_def Let_def)
qed

lemma whitelist_effect:
  shows "totalBalance (db (processWhitelistTransaction tx bc)) = totalBalance (db bc)"
    and "BALANCE (db (processWhitelistTransaction tx bc)) = BALANCE (db bc)"
    and "validators (processWhitelistTransaction tx bc) = validators bc"
  by (simp_all add: processWhitelistTransaction_def Let_def totalBalance_def)

lemma processByType_effect:
  assumes fin: "finite (dom (BALANCE (db bc)))"
    and r: "processByType tx bc = Inr bc'"
    and dp: "distinct_parties tx"
    and ex: "exact_application tx bc"
  shows "totalBalance (db bc') = totalBalance (db bc) + supply_change (validators bc) tx
       \<and> validators bc' = validators_after (validators bc) tx
       \<and> finite (dom (BALANCE (db bc')))"
proof -
  consider (transfer) "tx_type tx = ''TRANSFER''" | (mint) "tx_type tx = ''MINT''"
    | (reward) "tx_type tx = ''REWARD''" | (register) "tx_type tx = ''VALIDATOR_REGISTER''"
    | (withdraw) "tx_type tx = ''VALIDATOR_WITHDRAW''" | (message) "tx_type tx = ''MESSAGE''"
    | (whitelist) "tx_type tx = ''WHITELIST''"
    | (other) "tx_type tx \<notin> {''TRANSFER'', ''MINT'', ''REWARD'', ''VALIDATOR_REGISTER'',
                             ''VALIDATOR_WITHDRAW'', ''MESSAGE'', ''WHITELIST''}"
    by blast
  then show ?thesis
  proof cases
    case transfer
    then have "bc' = processTransferTransaction tx bc"
      using r by (simp add: processByType_def)
    moreover have "template (tx_from tx) \<noteq> template (tx_to tx)"
      using dp transfer by (simp add: distinct_parties_def)
    ultimately show ?thesis
      using fin transfer ex by (simp add: transfer_effect supply_change_def validators_after_def)
  next
    case mint
    then have "bc' = processMintTransaction tx bc"
      using r by (simp add: processByType_def)
    then show ?thesis
      using fin mint ex by (simp add: mint_effect supply_change_def validators_after_def)
  next
    case reward
    then have "bc' = processRewardTransaction tx bc"
      using r by (simp add: processByType_def)
    then show ?thesis
      using fin reward ex by (simp add: reward_effect supply_change_def validators_after_def)
  next
    case register
    then have "bc' = processValidatorRegistration tx bc"
      using r by (simp add: processByType_def)
    then show ?thesis
      using fin register ex
      by (simp add: registration_effect supply_change_def validators_after_def)
  next
    case withdraw
    then have "processValidatorWithdrawal tx bc = Inr bc'"
      using r by (simp add: processByType_def)
    then show ?thesis
      using fin withdraw ex withdrawal_effect [of bc tx bc']
      by (simp add: supply_change_def validators_after_def)
  next
    case message
    then have "bc' = processMessageTransaction tx bc"
      using r by (simp add: processByType_def)
    then show ?thesis
      using fin message ex by (simp add: message_effect supply_change_def validators_after_def)
  next
    case whitelist
    then have "bc' = processWhitelistTransaction tx bc"
      using r by (simp add: processByType_def)
    then show ?thesis
      using fin whitelist by (simp add: whitelist_effect supply_change_def validators_after_def)
  next
    case other
    then have "bc' = bc"
      using r by (simp add: processByType_def)
    then show ?thesis
      using fin other by (simp add: supply_change_def validators_after_def)
  qed
qed

lemma exact_application_TX [simp]:
  "exact_application tx (bc\<lparr>db := (db bc)\<lparr>TX := x\<rparr>\<rparr>) = exact_application tx bc"
  by (simp add: exact_application_def)

lemma processTransaction_effect:
  assumes fin: "finite (dom (BALANCE (db bc)))"
    and r: "processTransaction tx bc = Inr bc'"
    and dp: "distinct_parties tx"
    and ex: "exact_application tx bc"
  shows "totalBalance (db bc') = totalBalance (db bc) + supply_change (validators bc) tx
       \<and> validators bc' = validators_after (validators bc) tx
       \<and> finite (dom (BALANCE (db bc')))"
proof -
  let ?bc1 = "bc\<lparr>db := (db bc)\<lparr>TX := (TX (db bc))(tx_hash tx \<mapsto> tx)\<rparr>\<rparr>"
  from r obtain bc2 where bt: "processByType tx ?bc1 = Inr bc2"
    and bal: "BALANCE (db bc') = BALANCE (db bc2)" and val: "validators bc' = validators bc2"
    by (auto simp add: processTransaction_def Let_def split: if_splits sum.splits)
  have fin1: "finite (dom (BALANCE (db ?bc1)))" using fin by simp
  have ex1: "exact_application tx ?bc1" using ex by simp
  have "totalBalance (db bc2) = totalBalance (db ?bc1) + supply_change (validators ?bc1) tx
       \<and> validators bc2 = validators_after (validators ?bc1) tx
       \<and> finite (dom (BALANCE (db bc2)))"
    using fin1 bt dp ex1 by (rule processByType_effect)
  moreover have "totalBalance (db ?bc1) = totalBalance (db bc)"
    by (simp add: totalBalance_def)
  moreover have "totalBalance (db bc') = totalBalance (db bc2)"
    using bal by (rule totalBalance_eqI)
  ultimately show ?thesis using bal val by simp
qed

lemma processTransactions_effect:
  assumes "finite (dom (BALANCE (db bc)))"
    and "processTransactions txs bc = Inr bc'"
    and "list_all distinct_parties txs"
    and "exact_run txs bc"
  shows "totalBalance (db bc') - totalBalance (db bc) = block_supply_change (validators bc) txs"
  using assms
proof (induction txs arbitrary: bc)
  case Nil
  then show ?case by simp
next
  case (Cons tx txs)
  from Cons.prems(2) obtain bc1 where step: "processTransaction tx bc = Inr bc1"
    and rest: "processTransactions txs bc1 = Inr bc'"
    by (auto split: sum.splits)
  have dp: "distinct_parties tx" and dps: "list_all distinct_parties txs"
    using Cons.prems(3) by simp_all
  have ex: "exact_application tx bc" and exs: "exact_run txs bc1"
    using Cons.prems(4) step by (simp_all add: state_of_def)
  have eff: "totalBalance (db bc1) = totalBalance (db bc) + supply_change (validators bc) tx
       \<and> validators bc1 = validators_after (validators bc) tx
       \<and> finite (dom (BALANCE (db bc1)))"
    using Cons.prems(1) step dp ex by (rule processTransaction_effect)
  then have "totalBalance (db bc') - totalBalance (db bc1)
               = block_supply_change (validators bc1) txs"
    using Cons.IH [of bc1] rest dps exs by simp
  then show ?case using eff by simp
qed


lemma returnedD: "returned r \<Longrightarrow> r = Inr (state_of r)"
  by (cases r) (simp_all add: returned_def state_of_def)

lemma finite_funded: "finite (dom (BALANCE (db funded_chain)))"
  by (simp add: funded_chain_def chain_with_def empty_database_def)

lemma template_Some [simp]: "template (Some s) = s"
  by (simp add: template_def)

lemma names_distinct [simp]:
  "alice \<noteq> bob" "bob \<noteq> alice" "alice \<noteq> carol" "carol \<noteq> alice"
  "bob \<noteq> carol" "carol \<noteq> bob"
  by (simp_all add: alice_def bob_def carol_def)

lemma funded_balances [simp]:
  "getAddressBalance (db funded_chain) (Some alice) = 15000"
  "getAddressBalance (db funded_chain) (Some bob) = 0"
  by (simp_all add: funded_chain_def chain_with_def empty_database_def getAddressBalance_def
        template_def alice_def bob_def)

lemma rewarded_message_fields [simp]:
  "tx_instance rewarded_message" "verifyHash example_builtins rewarded_message"
  "tx_type rewarded_message = ''MESSAGE''" "tx_from rewarded_message = Some alice"
  "tx_to rewarded_message = Some bob" "tx_amount rewarded_message = 0"
  "tx_fee rewarded_message = 0" "tx_senderReward rewarded_message = Some (3 / 4)"
  "tx_receiverReward rewarded_message = Some (1 / 4)"
  by (simp_all add: rewarded_message_def Transaction_def)

lemma transfer_200_returns: "returned (processTransactions [transfer_200] funded_chain)"
  by (simp add: processTransaction_def processByType_def returned_def Let_def)

lemma rewarded_message_returns: "returned (processTransactions [rewarded_message] funded_chain)"
  by (simp add: processTransaction_def processByType_def returned_def Let_def)

lemma transfer_200_exact: "exact_run [transfer_200] funded_chain"
  by (simp add: exact_application_def representable_def)

lemma rewarded_message_exact: "exact_run [rewarded_message] funded_chain"
  by (simp add: exact_application_def representable_def positive_def reward_value_def Let_def)

lemma distinct_examples:
  "list_all distinct_parties [transfer_200]" "list_all distinct_parties [rewarded_message]"
  by (simp_all add: distinct_parties_def)


text \<open>
  What applying a single transaction of one of the balance-changing types leaves as
  balances: those of the type's own function, applied after the transaction record was
  written.
\<close>

lemma processTransaction_balances:
  assumes "tx_instance tx"
    and "processByType tx (bc\<lparr>db := (db bc)\<lparr>TX := (TX (db bc))(tx_hash tx \<mapsto> tx)\<rparr>\<rparr>) = Inr bc2"
  shows "returned (processTransactions [tx] bc)
       \<and> totalBalance (db (state_of (processTransactions [tx] bc))) = totalBalance (db bc2)"
  using assms
  by (simp add: processTransaction_def Let_def returned_def state_of_def
        totalBalance_eqI [of "db (addToAddressTransactions a h c)" "db c" for a h c])

lemma self_transfer_fields [simp]:
  "tx_instance self_transfer" "tx_type self_transfer = ''TRANSFER''"
  "tx_from self_transfer = Some alice" "tx_to self_transfer = Some alice"
  "tx_amount self_transfer = 200" "tx_fee self_transfer = 0"
  by (simp_all add: self_transfer_def Transaction_def)

lemma mint_tenth_fields:
  "tx_instance mint_tenth" "tx_type mint_tenth = ''MINT''"
  "tx_from mint_tenth = None" "tx_to mint_tenth = Some alice"
  "tx_amount mint_tenth = double (1 / 10)"
  by (simp_all add: mint_tenth_def Transaction_def)

text \<open>
  A transfer whose sender and recipient are the same account reads both balances before
  it writes either, so the second write restores the debit and adds the amount: the sum
  of balances rises by the amount.
\<close>

lemma self_transfer_adds_amount:
  assumes "finite (dom (BALANCE (db bc)))" and "template (tx_from tx) = template (tx_to tx)"
    and "tx_type tx = ''TRANSFER''" and "exact_application tx bc"
  shows "totalBalance (db (processTransferTransaction tx bc))
           = totalBalance (db bc) + tx_amount tx"
proof -
  have same: "getAddressBalance (db bc) (tx_to tx) = getAddressBalance (db bc) (tx_from tx)"
    using assms(2) by (simp add: getAddressBalance_def)
  show ?thesis
    using assms same
    by (simp add: processTransferTransaction_def Let_def totalBalance_put_BALANCE
          getAddressBalance_put_BALANCE exact_application_def js_exact)
qed

lemma self_transfer_run:
  "returned (processTransactions [self_transfer] funded_chain)
   \<and> totalBalance (db (state_of (processTransactions [self_transfer] funded_chain)))
       - totalBalance (db funded_chain) = 200"
proof -
  let ?bc1 = "funded_chain\<lparr>db := (db funded_chain)
                \<lparr>TX := (TX (db funded_chain))(tx_hash self_transfer \<mapsto> self_transfer)\<rparr>\<rparr>"
  have bt: "processByType self_transfer ?bc1 = Inr (processTransferTransaction self_transfer ?bc1)"
    by (simp add: processByType_def)
  have fin: "finite (dom (BALANCE (db ?bc1)))"
    using finite_funded by simp
  have ex: "exact_application self_transfer ?bc1"
    by (simp add: exact_application_def representable_def)
  have "totalBalance (db (processTransferTransaction self_transfer ?bc1))
          = totalBalance (db ?bc1) + tx_amount self_transfer"
    using fin _ _ ex by (rule self_transfer_adds_amount) simp_all
  moreover have "totalBalance (db ?bc1) = totalBalance (db funded_chain)"
    by (simp add: totalBalance_def)
  ultimately show ?thesis
    using processTransaction_balances [OF self_transfer_fields(1) bt] by simp
qed

text \<open>
  Where a sum is rounded the contributions are not exact either: minting 0.1 to an
  account that holds 0.2 raises the sum of balances by more than the amount minted.
\<close>

lemma rounded_mint_run:
  "returned (processTransactions [mint_tenth] (chain_with [alice \<mapsto> double (1 / 5)] []))
   \<and> totalBalance (db (state_of (processTransactions [mint_tenth]
                                    (chain_with [alice \<mapsto> double (1 / 5)] []))))
       - totalBalance (db (chain_with [alice \<mapsto> double (1 / 5)] []))
     > tx_amount mint_tenth"
proof -
  let ?bc = "chain_with [alice \<mapsto> double (1 / 5)] []"
  let ?bc1 = "?bc\<lparr>db := (db ?bc)\<lparr>TX := (TX (db ?bc))(tx_hash mint_tenth \<mapsto> mint_tenth)\<rparr>\<rparr>"
  have bt: "processByType mint_tenth ?bc1 = Inr (processMintTransaction mint_tenth ?bc1)"
    by (simp add: processByType_def mint_tenth_fields)
  have fin: "finite (dom (BALANCE (db ?bc1)))"
    by (simp add: chain_with_def empty_database_def)
  have bal: "getAddressBalance (db ?bc1) (Some alice) = double (1 / 5)"
    by simp
  have "totalBalance (db (processMintTransaction mint_tenth ?bc1))
          = totalBalance (db ?bc1) - double (1 / 5) + js_plus (double (1 / 5)) (double (1 / 10))"
    using fin bal
    by (simp add: processMintTransaction_def Let_def mint_tenth_fields totalBalance_put_BALANCE)
  moreover have "totalBalance (db ?bc1) = totalBalance (db ?bc)"
    by (simp add: totalBalance_def)
  moreover have "double (1 / 10) < js_plus (double (1 / 5)) (double (1 / 10)) - double (1 / 5)"
    unfolding double_tenths(4) by (simp add: double_tenths(1,2))
  ultimately show ?thesis
    using processTransaction_balances [OF mint_tenth_fields(1) bt]
    by (simp only: mint_tenth_fields) simp
qed


text \<open>
  As the code stands the loop is not reached from \<open>saveBlock\<close>, which throws before it:
  a call of \<open>saveBlock\<close> leaves every balance as it was.
\<close>

lemma saveBlock_keeps_balances:
  "totalBalance (db (state_of (saveBlock B block bc))) = totalBalance (db bc)"
  by (simp add: saveBlock_throws state_of_def)

section \<open>The validator's reward\<close>

lemma foldl_js_plus_exact:
  "exact_sum acc xs \<Longrightarrow> foldl js_plus acc xs = acc + sum_list xs"
  by (induction xs arbitrary: acc) (simp_all add: js_exact algebra_simps)

text \<open>The loop of \<open>processValidatorRewards\<close> adds the terms of the transactions in order.\<close>

lemma totalReward_loop_fold:
  "totalReward_loop txs acc = foldl js_plus acc (concat (map reward_terms txs))"
  by (induction txs arbitrary: acc) (simp_all add: reward_terms_def Let_def)

lemma sum_list_reward_terms:
  assumes "list_all (\<lambda>tx. tx_type tx = ''MESSAGE'' \<longrightarrow>
                       representable (reward_value (tx_senderReward tx) * (3 / 2))
                       \<and> representable (reward_value (tx_receiverReward tx) * (3 / 2))) txs"
  shows "sum_list (concat (map reward_terms txs)) = block_reward txs"
  using assms
proof (induction txs)
  case Nil
  then show ?case by (simp add: block_reward_def)
next
  case (Cons tx txs)
  have split: "block_reward (tx # txs) = block_reward [tx] + block_reward txs"
    by (simp add: block_reward_def algebra_simps)
  have one: "sum_list (reward_terms tx) = block_reward [tx]"
    using Cons.prems
    by (auto simp add: reward_terms_def block_reward_def nonzero_def reward_value_def js_exact
             algebra_simps split: option.splits)
  show ?case
    using Cons one split by simp
qed

lemma processValidatorRewards_balance:
  "getAddressBalance (db (processValidatorRewards B now validatorAddress block bc))
       (Some validatorAddress)
     = js_plus (getAddressBalance (db bc) (Some validatorAddress))
         (foldl js_plus 0 (concat (map reward_terms (b_transactions block))))"
  by (simp add: processValidatorRewards_def Let_def getAddressBalance_put_BALANCE
        totalReward_loop_fold)

lemma processValidatorRewards_exact:
  assumes "exact_reward (getAddressBalance (db bc) (Some validatorAddress)) (b_transactions block)"
  shows "getAddressBalance (db (processValidatorRewards B now validatorAddress block bc))
           (Some validatorAddress)
         = getAddressBalance (db bc) (Some validatorAddress) + block_reward (b_transactions block)"
proof -
  let ?terms = "concat (map reward_terms (b_transactions block))"
  have "foldl js_plus 0 ?terms = sum_list ?terms"
    using assms foldl_js_plus_exact [of 0 ?terms] by (simp add: exact_reward_def)
  also have "\<dots> = block_reward (b_transactions block)"
    using assms by (simp add: exact_reward_def sum_list_reward_terms)
  finally show ?thesis
    using assms by (simp add: processValidatorRewards_balance exact_reward_def js_exact)
qed


lemma rewarding_block_exact:
  "exact_reward 10 (b_transactions rewarding_block)"
  by (simp add: exact_reward_def rewarding_block_def block_of_def reward_terms_def
        representable_def reward_value_def nonzero_def block_reward_def js_times_def)



text \<open>
  As the code stands \<open>createBlock\<close> does not reach the reward step. Whenever it has a
  block to save, \<open>saveBlock\<close> throws, and the throw leaves \<open>createBlock\<close>: no block is
  produced, the pending transactions stay pending, and the validator is not credited.
\<close>

lemma createBlock_throws:
  assumes "Map_has (validators bc) (Some validatorAddress)"
    and "LATEST_BLOCK (db bc) = Some latestBlock"
    and "validTransactions_loop B bc (pendingTransactions bc) = Inr validTransactions"
    and "validTransactions \<noteq> []"
  shows "createBlock B now now' signCallback validatorAddress bc
           = Inl (Error ''Failed to save block: Maximum call stack size exceeded'', bc)"
proof -
  have "pendingTransactions bc \<noteq> []"
    using assms(3,4) by (cases "pendingTransactions bc") simp_all
  then show ?thesis
    using assms by (simp add: createBlock_def Let_def saveBlock_throws)
qed

lemma createBlock_produces_nothing:
  "createBlock B now now' signCallback validatorAddress bc \<noteq> Inr (Some newBlock, bc')"
  by (simp add: createBlock_def Let_def saveBlock_throws split: option.split sum.split)

lemma pending_transfer_fields [simp]:
  "tx_instance pending_transfer" "verifyHash example_builtins pending_transfer"
  "tx_type pending_transfer = ''TRANSFER''" "tx_from pending_transfer = Some bob"
  "tx_to pending_transfer = Some carol" "tx_amount pending_transfer = 200"
  "tx_fee pending_transfer = 1 / 2"
  by (simp_all add: pending_transfer_def Transaction_def)

lemma ready_chain_throws:
  "createBlock example_builtins 1 2 (\<lambda>hash. ''signature'') alice ready_chain
     = Inl (Error ''Failed to save block: Maximum call stack size exceeded'', ready_chain)"
proof (rule createBlock_throws)
  show "Map_has (validators ready_chain) (Some alice)"
    by (simp add: ready_chain_def Map_has_def)
  show "LATEST_BLOCK (db ready_chain) = Some (block_of 0 [])"
    by (simp add: ready_chain_def empty_database_def)
  show "validTransactions_loop example_builtins ready_chain (pendingTransactions ready_chain)
          = Inr [pending_transfer]"
    by (simp add: ready_chain_def isTransactionValid_def getAddressBalance_def
          empty_database_def js_plus_def)
  show "[pending_transfer] \<noteq> []" by simp
qed

section \<open>Synchronisation with a peer\<close>

text \<open>
  The loop by itself, whatever \<open>saveBlock\<close> does with a block: the block at \<open>i\<close> is
  requested, what was received is given to \<open>saveBlock\<close> before anything else is
  requested, the next request is for \<open>i + 1\<close>, and a request or a \<open>saveBlock\<close> that
  throws ends the loop.
\<close>

lemma sync_blocks_trace:
  "one_at_a_time B p i (bc::blockchain) (fst (sync_blocks B p i P bc))
   \<and> (\<exists>k. requested (fst (sync_blocks B p i P bc)) = take k [i..P])"
proof (induction B p i P bc rule: sync_blocks.induct)
  case (1 B p i P bc)
  note unfold = sync_blocks.simps [of B p i P bc]
  show ?case
  proof (cases "i \<le> P")
    case False
    then show ?thesis by (simp add: unfold)
  next
    case le: True
    then have upto: "[i..P] = i # [i + 1..P]" by (simp add: upto_rec1)
    show ?thesis
    proof (cases "peer_block p i")
      case (Inl err)
      have "requested [RequestBlock i] = take 1 [i..P]" using upto by simp
      then show ?thesis using le Inl by (auto simp add: unfold)
    next
      case (Inr response)
      show ?thesis
      proof (cases "saveBlock B (Block_fromJSON response) bc")
        case (Inl thrown)
        obtain err bc' where t: "thrown = (err, bc')" by (cases thrown)
        have "requested [RequestBlock i, Rejected i (Block_fromJSON response)] = take 1 [i..P]"
          using upto by simp
        then show ?thesis
          using le Inr Inl t by (auto simp add: unfold returned_def response_is_def)
      next
        case saved: (Inr bc')
        let ?rest = "sync_blocks B p (i + 1) P bc'"
        have IH: "one_at_a_time B p (i + 1) bc' (fst ?rest)
                \<and> (\<exists>k. requested (fst ?rest) = take k [i + 1..P])"
          using "1.IH" [OF le Inr refl saved] by simp
        have ev: "fst (sync_blocks B p i P bc)
                    = RequestBlock i # Applied i (Block_fromJSON response) # fst ?rest"
          using le Inr saved by (simp add: unfold Let_def split: prod.splits)
        from IH obtain k where k: "requested (fst ?rest) = take k [i + 1..P]" by blast
        have "requested (fst (sync_blocks B p i P bc)) = take (Suc k) [i..P]"
          unfolding ev using k upto by simp
        moreover have "one_at_a_time B p i bc (fst (sync_blocks B p i P bc))"
          unfolding ev using IH Inr saved by (simp add: returned_def state_of_def response_is_def)
        ultimately show ?thesis by blast
      qed
    qed
  qed
qed

text \<open>
  With \<open>saveBlock\<close> as it is, the loop ends at its first block: the request throws, or
  the block received is rejected.
\<close>

lemma sync_blocks_first:
  assumes "i \<le> P"
  shows "sync_blocks B p i P bc =
           (case peer_block p i of
              Inl err \<Rightarrow> ([RequestBlock i], Inl (err, bc))
            | Inr response \<Rightarrow>
                ([RequestBlock i, Rejected i (Block_fromJSON response)],
                 Inl (Error ''Failed to save block: Maximum call stack size exceeded'', bc)))"
  using assms by (simp add: sync_blocks.simps [of B p i P bc] saveBlock_throws split: sum.split)

lemma syncWithPeer_first:
  assumes "peer_height p = Inr (Some P)" and "ourHeight (node_blockchain n) = L" and "L < P"
  shows "syncWithPeer B p n =
           (case peer_block p (L + 1) of
              Inl err \<Rightarrow> ([RequestBlock (L + 1)], Inl (err, n))
            | Inr response \<Rightarrow>
                ([RequestBlock (L + 1), Rejected (L + 1) (Block_fromJSON response)],
                 Inl (Error ''Failed to save block: Maximum call stack size exceeded'', n)))"
proof -
  have le: "L + 1 \<le> P" using assms(3) by simp
  show ?thesis
    unfolding syncWithPeer_def using assms
    by (simp add: Let_def sync_blocks_first [OF le] split: sum.split)
qed

lemma syncWithPeer_events:
  assumes "peer_height p = Inr (Some P)" and "ourHeight (node_blockchain n) = L" and "L < P"
  shows "fst (syncWithPeer B p n) = fst (sync_blocks B p (L + 1) P (node_blockchain n))"
proof -
  have le: "L + 1 \<le> P" using assms(3) by simp
  show ?thesis
    unfolding syncWithPeer_first [OF assms] sync_blocks_first [OF le]
    by (simp split: sum.split)
qed

lemma syncWithPeer_in_order_aux:
  assumes "peer_height p = Inr (Some P)" and "ourHeight (node_blockchain n) = L" and "L < P"
  shows "one_at_a_time B p (L + 1) (node_blockchain n) (fst (syncWithPeer B p n))
       \<and> (\<exists>k. requested (fst (syncWithPeer B p n)) = take k [L + 1..P])
       \<and> (case peer_block p (L + 1) of
             Inl err \<Rightarrow> syncWithPeer B p n = ([RequestBlock (L + 1)], Inl (err, n))
           | Inr response \<Rightarrow>
               syncWithPeer B p n
                 = ([RequestBlock (L + 1), Rejected (L + 1) (Block_fromJSON response)],
                    Inl (Error ''Failed to save block: Maximum call stack size exceeded'', n)))"
proof -
  have trace: "one_at_a_time B p (L + 1) (node_blockchain n) (fst (syncWithPeer B p n))
       \<and> (\<exists>k. requested (fst (syncWithPeer B p n)) = take k [L + 1..P])"
    unfolding syncWithPeer_events [OF assms] by (rule sync_blocks_trace)
  have rest: "(case peer_block p (L + 1) of
             Inl err \<Rightarrow> syncWithPeer B p n = ([RequestBlock (L + 1)], Inl (err, n))
           | Inr response \<Rightarrow>
               syncWithPeer B p n
                 = ([RequestBlock (L + 1), Rejected (L + 1) (Block_fromJSON response)],
                    Inl (Error ''Failed to save block: Maximum call stack size exceeded'', n)))"
    unfolding syncWithPeer_first [OF assms]
    by (cases "peer_block p (L + 1)") simp_all
  show ?thesis using trace rest by blast
qed


lemma node_at_5_height [simp]: "ourHeight (node_blockchain node_at_5) = 5"
  by (simp add: node_at_5_def node_with_def ourHeight_def block_of_def)

lemma peer_at_fields [simp]:
  "peer_height (peer_at h) = Inr (Some h)"
  "peer_block (peer_at h) i = Inr (served_block i)"
  "peer_validators (peer_at h) = Inr [(alice, 500), (carol, 60)]"
  by (simp_all add: peer_at_def)


lemma sync_validators_union:
  "(\<forall>address stake. map_of (vm_validators vm) address = Some stake \<longrightarrow>
       map_of (vm_validators (state_of (sync_validators B remote vm))) address = Some stake)
   \<and> (returned (sync_validators B remote vm) \<longrightarrow>
       map_of (vm_validators (state_of (sync_validators B remote vm)))
         = map_of remote ++ map_of (vm_validators vm))"
proof (induction B remote vm rule: sync_validators.induct)
  case (1 B vm)
  then show ?case by (simp add: state_of_def returned_def)
next
  case (2 B address amount entries vm)
  show ?case
  proof (cases "isValidator vm address")
    case True
    then have "address \<in> dom (map_of (vm_validators vm))"
      by (auto simp add: isValidator_def Map_has_def)
    then have eq: "map_of ((address, amount) # entries) ++ map_of (vm_validators vm)
                 = map_of entries ++ map_of (vm_validators vm)"
      by (auto simp add: map_add_def fun_eq_iff split: option.splits)
    have step: "sync_validators B ((address, amount) # entries) vm = sync_validators B entries vm"
      using True by simp
    have nn: "\<not> \<not> isValidator vm address" using True by simp
    show ?thesis unfolding step eq by (rule "2.IH"(2) [OF nn])
  next
    case False
    then have none: "map_of (vm_validators vm) address = None"
      by (simp add: isValidator_def Map_has_def)
    show ?thesis
    proof (cases "registerValidator B address amount vm")
      case (Inl thrown)
      then have "snd thrown = vm"
        by (auto simp add: registerValidator_def Let_def split: if_splits)
      then show ?thesis
        using False Inl by (cases thrown) (simp add: state_of_def returned_def)
    next
      case (Inr vm1)
      then have vm1: "map_of (vm_validators vm1) = (map_of (vm_validators vm))(address \<mapsto> amount)"
        using none
        by (auto simp add: registerValidator_def Let_def get_or_0_def update_conv'
                 split: if_splits)
      have IH: "(\<forall>a stake. map_of (vm_validators vm1) a = Some stake \<longrightarrow>
                   map_of (vm_validators (state_of (sync_validators B entries vm1))) a = Some stake)
              \<and> (returned (sync_validators B entries vm1) \<longrightarrow>
                   map_of (vm_validators (state_of (sync_validators B entries vm1)))
                     = map_of entries ++ map_of (vm_validators vm1))"
        using "2.IH"(1) [OF False Inr] .
      have step: "sync_validators B ((address, amount) # entries) vm = sync_validators B entries vm1"
        using False Inr by simp
      have frame: "\<forall>a stake. map_of (vm_validators vm) a = Some stake \<longrightarrow>
                     map_of (vm_validators (state_of (sync_validators B entries vm1))) a = Some stake"
      proof (intro allI impI)
        fix a stake
        assume h: "map_of (vm_validators vm) a = Some stake"
        then have "a \<noteq> address" using none by auto
        then have "map_of (vm_validators vm1) a = Some stake" using h by (simp add: vm1)
        then show "map_of (vm_validators (state_of (sync_validators B entries vm1))) a = Some stake"
          using IH by blast
      qed
      have eq: "map_of ((address, amount) # entries) ++ map_of (vm_validators vm)
                  = map_of entries ++ map_of (vm_validators vm1)"
        using none by (auto simp add: vm1 map_add_def fun_eq_iff split: option.splits)
      from IH have u: "returned (sync_validators B entries vm1) \<longrightarrow>
                   map_of (vm_validators (state_of (sync_validators B entries vm1)))
                     = map_of entries ++ map_of (vm_validators vm1)"
        by (rule conjunct2)
      show ?thesis unfolding step eq using frame u by (rule conjI)
    qed
  qed
qed

lemma syncWithPeer_vm_cases:
  obtains (untouched)
      "node_validatorManager (state_of (snd (syncWithPeer B p n))) = node_validatorManager n"
      "\<not> returned (snd (syncWithPeer B p n))"
    | (synced) remote where "peer_validators p = Inr remote"
      "node_validatorManager (state_of (snd (syncWithPeer B p n)))
         = state_of (sync_validators B remote (node_validatorManager n))"
      "returned (snd (syncWithPeer B p n))
         = returned (sync_validators B remote (node_validatorManager n))"
proof (cases "peer_height p")
  case (Inl err)
  then have "snd (syncWithPeer B p n) = Inl (err, n)" by (simp add: syncWithPeer_def)
  then show ?thesis using untouched by (simp add: state_of_def returned_def)
next
  case (Inr peerHeight)
  define blocks where "blocks =
     (case peerHeight of
        None \<Rightarrow> ([], Inr (node_blockchain n))
      | Some peerHeight \<Rightarrow>
          if peerHeight > ourHeight (node_blockchain n)
          then sync_blocks B p (ourHeight (node_blockchain n) + 1) peerHeight (node_blockchain n)
          else ([], Inr (node_blockchain n)))"
  obtain events r where b: "blocks = (events, r)" by (cases blocks)
  have unfold: "syncWithPeer B p n =
     (case r of
        Inl (err, bc) \<Rightarrow> (events, Inl (err, n\<lparr>node_blockchain := bc\<rparr>))
      | Inr bc \<Rightarrow>
          (let n = n\<lparr>node_blockchain := bc\<rparr>
           in case peer_validators p of
                Inl err \<Rightarrow> (events, Inl (err, n))
              | Inr validatorsResponse \<Rightarrow>
                  (case sync_validators B validatorsResponse (node_validatorManager n) of
                     Inl (err, vm) \<Rightarrow> (events, Inl (err, n\<lparr>node_validatorManager := vm\<rparr>))
                   | Inr vm \<Rightarrow>
                       (events,
                        Inr (n\<lparr>node_validatorManager := vm,
                               node_blockchain := bc\<lparr>db := save B vm (db bc)\<rparr>\<rparr>)))))"
    using Inr b unfolding syncWithPeer_def blocks_def Let_def by simp
  show ?thesis
  proof (cases r)
    case (Inl thrown)
    then show ?thesis
      using unfold untouched by (cases thrown) (simp add: state_of_def returned_def)
  next
    case bc: (Inr bc)
    show ?thesis
    proof (cases "peer_validators p")
      case (Inl err)
      then show ?thesis
        using unfold bc untouched by (simp add: state_of_def returned_def)
    next
      case remote: (Inr remote)
      show ?thesis
      proof (cases "sync_validators B remote (node_validatorManager n)")
        case (Inl thrown)
        then show ?thesis
          using unfold bc remote synced [of remote]
          by (cases thrown) (simp add: state_of_def returned_def)
      next
        case (Inr vm)
        then show ?thesis
          using unfold bc remote synced [of remote]
          by (simp add: state_of_def returned_def)
      qed
    qed
  qed
qed

text \<open>
  C8. Whatever a sync with a peer does and however it ends, every address in the local
  validator registry keeps the stake recorded locally. When the sync returns, the
  registry is the peer's validator set joined to the local one, the local entry winning
  where both have one: addresses unknown locally were added with the peer's stake.
\<close>

theorem syncWithPeer_validators_union:
  "(\<forall>address stake.
      map_of (vm_validators (node_validatorManager n)) address = Some stake \<longrightarrow>
      map_of (vm_validators (node_validatorManager (state_of (snd (syncWithPeer B p n)))))
        address = Some stake)
   \<and> (returned (snd (syncWithPeer B p n)) \<longrightarrow>
        (case peer_validators p of
           Inl err \<Rightarrow> False
         | Inr remote \<Rightarrow>
             map_of (vm_validators (node_validatorManager (state_of (snd (syncWithPeer B p n)))))
               = map_of remote ++ map_of (vm_validators (node_validatorManager n))))"
proof (cases rule: syncWithPeer_vm_cases [of B p n])
  case untouched
  then show ?thesis by simp
next
  case (synced remote)
  then show ?thesis
    using sync_validators_union [of "node_validatorManager n" B remote] by simp
qed

theorem syncWithPeer_validators_union_witness:
  "map_of (vm_validators (node_validatorManager node_at_5)) alice = Some 10
   \<and> peer_validators (peer_at 5) = Inr [(alice, 500), (carol, 60)]
   \<and> syncWithPeer example_builtins (peer_at 5) node_at_5
       = ([], Inr (state_of (snd (syncWithPeer example_builtins (peer_at 5) node_at_5))))
   \<and> vm_validators (node_validatorManager (state_of (snd
        (syncWithPeer example_builtins (peer_at 5) node_at_5))))
       = [(alice, 10), (bob, 90), (carol, 60)]"
proof -
  have vm: "node_validatorManager node_at_5 = two_validators"
    by (simp add: node_at_5_def node_with_def)
  have sv: "sync_validators example_builtins [(alice, 500), (carol, 60)] two_validators
              = Inr (two_validators\<lparr>vm_validators := [(alice, 10), (bob, 90), (carol, 60)]\<rparr>)"
    by (simp add: two_validators_def isValidator_def Map_has_def registerValidator_def
          get_or_0_def)
  have run: "syncWithPeer example_builtins (peer_at 5) node_at_5
       = ([], Inr (state_of (snd (syncWithPeer example_builtins (peer_at 5) node_at_5))))"
    and r: "vm_validators (node_validatorManager (state_of (snd
        (syncWithPeer example_builtins (peer_at 5) node_at_5))))
       = [(alice, 10), (bob, 90), (carol, 60)]"
    by (simp_all add: syncWithPeer_def Let_def vm sv state_of_def del: sync_validators.simps)
  have l: "map_of (vm_validators (node_validatorManager node_at_5)) alice = Some 10"
    by (simp add: vm two_validators_def)
  show ?thesis
    using run r l syncWithPeer_validators_union [of node_at_5 example_builtins "peer_at 5"]
    by simp
qed

text \<open>
  A sync with a peer that is ahead throws in the block loop, before the validator set is
  requested: the registry is then left as it was.
\<close>

lemma syncWithPeer_ahead_keeps_registry:
  assumes "peer_height p = Inr (Some P)" and "ourHeight (node_blockchain n) < P"
  shows "node_validatorManager (state_of (snd (syncWithPeer B p n))) = node_validatorManager n"
  unfolding syncWithPeer_first [OF assms(1) refl assms(2)]
  by (simp add: state_of_def split: sum.split)

section \<open>Blocks at a height the node already has\<close>

lemma handleBlockMessage_ignores_known:
  assumes "b_height blockData \<le> ourHeight (node_blockchain n)"
  shows "handleBlockMessage B C rnd blockData n = n"
  using assms by (simp add: handleBlockMessage_def Block_fromJSON_def Let_def)

lemma known_block_rejected_aux:
  assumes "b_height blockData \<le> ourHeight (node_blockchain n)"
  shows "handleBlockMessage B C rnd blockData n = n
       \<and> (peer_height p = Inr (Some P) \<and> ourHeight (node_blockchain n) < P
            \<and> peer_block p (ourHeight (node_blockchain n) + 1) = Inr blockData
          \<longrightarrow> syncWithPeer B p n
                = ([RequestBlock (ourHeight (node_blockchain n) + 1),
                    Rejected (ourHeight (node_blockchain n) + 1) (Block_fromJSON blockData)],
                   Inl (Error ''Failed to save block: Maximum call stack size exceeded'', n)))"
proof (intro conjI impI)
  show "handleBlockMessage B C rnd blockData n = n"
    using assms by (rule handleBlockMessage_ignores_known)
next
  assume h: "peer_height p = Inr (Some P) \<and> ourHeight (node_blockchain n) < P
            \<and> peer_block p (ourHeight (node_blockchain n) + 1) = Inr blockData"
  then have "peer_height p = Inr (Some P)" and "ourHeight (node_blockchain n) < P"
    and b: "peer_block p (ourHeight (node_blockchain n) + 1) = Inr blockData"
    by simp_all
  then show "syncWithPeer B p n
                = ([RequestBlock (ourHeight (node_blockchain n) + 1),
                    Rejected (ourHeight (node_blockchain n) + 1) (Block_fromJSON blockData)],
                   Inl (Error ''Failed to save block: Maximum call stack size exceeded'', n))"
    using syncWithPeer_first [of p P n "ourHeight (node_blockchain n)" B] by simp
qed

text \<open>
  C3. A block whose height is at most the height of the node's latest block changes
  nothing, on either path. The gossip handler compares the heights and returns. The
  sync has no such comparison: it gives the block it received to \<open>saveBlock\<close>, which
  throws before its first write, as it does on every block, and the sync throws in turn.
  The node is the same after as before: no balance, no block record, and
  \<open>currentHeight\<close> as it was.
\<close>

theorem known_block_rejected:
  assumes "b_height blockData \<le> ourHeight (node_blockchain n)"
  shows "handleBlockMessage B C rnd blockData n = n
       \<and> (peer_height p = Inr (Some P) \<and> ourHeight (node_blockchain n) < P
            \<and> peer_block p (ourHeight (node_blockchain n) + 1) = Inr blockData
          \<longrightarrow> syncWithPeer B p n
                = ([RequestBlock (ourHeight (node_blockchain n) + 1),
                    Rejected (ourHeight (node_blockchain n) + 1) (Block_fromJSON blockData)],
                   Inl (Error ''Failed to save block: Maximum call stack size exceeded'', n)))"
  using assms by (rule known_block_rejected_aux)

theorem known_block_rejected_witness:
  "b_height stale_block \<le> ourHeight (node_blockchain node_at_5)
   \<and> handleBlockMessage example_builtins example_collaborators (1 / 2) stale_block node_at_5
       = node_at_5
   \<and> peer_height stale_peer = Inr (Some 6) \<and> ourHeight (node_blockchain node_at_5) < 6
   \<and> peer_block stale_peer (ourHeight (node_blockchain node_at_5) + 1) = Inr stale_block
   \<and> syncWithPeer example_builtins stale_peer node_at_5
       = ([RequestBlock 6, Rejected 6 (Block_fromJSON stale_block)],
          Inl (Error ''Failed to save block: Maximum call stack size exceeded'', node_at_5))
   \<and> currentHeight (node_blockchain node_at_5) = 5
   \<and> getAddressBalance (db (node_blockchain node_at_5)) (Some alice) = 15000
   \<and> BLOCK_HEIGHT (db (node_blockchain node_at_5)) 0 = Some ''genesis''"
proof -
  have h: "b_height stale_block \<le> ourHeight (node_blockchain node_at_5)"
    by (simp add: stale_block_def block_of_def)
  have p: "peer_height stale_peer = Inr (Some 6)"
    "peer_block stale_peer (ourHeight (node_blockchain node_at_5) + 1) = Inr stale_block"
    by (simp_all add: stale_peer_def)
  have s: "currentHeight (node_blockchain node_at_5) = 5"
    "getAddressBalance (db (node_blockchain node_at_5)) (Some alice) = 15000"
    "BLOCK_HEIGHT (db (node_blockchain node_at_5)) 0 = Some ''genesis''"
    by (simp_all add: node_at_5_def node_with_def chain_with_def empty_database_def
          getAddressBalance_def)
  show ?thesis
    using h p s
      known_block_rejected [OF h, of example_builtins example_collaborators "1 / 2"
        stale_peer 6]
    by simp
qed

end
